theory Spec2Isabelle
  imports Main "HOL-Library.Word"
begin

unbundle bit_operations_syntax

section \<open>Bytes, exceptions and the values the identities handle\<close>

text \<open>
  This theory embeds \<^verbatim>\<open>golix/cipher.py\<close>: the identity classes of the two
  ciphersuites and the protocol operations of \<^verbatim>\<open>_FirstPersonBase\<close>.
  A Python \<^verbatim>\<open>bytes\<close> object is a list of 8-bit words. Every exception the code
  raises or lets through is a value of \<open>error\<close>; a function that can raise returns
  \<open>error + 'a\<close>, with \<open>Inl\<close> for the exception.
\<close>

type_synonym byte = "8 word"
type_synonym bytes = "byte list"

definition bytes_of :: "string \<Rightarrow> bytes" where
  "bytes_of s = map of_char s"

datatype error =
    TypeError
  | ValueError
  | KeyError
  | AttributeError
  | RuntimeError
  | OverflowError
  | ParseError
  | SecurityError

text \<open>\<^verbatim>\<open>utils.Guid\<close>: the code reads only its \<^verbatim>\<open>address\<close>.\<close>

record guid =
  guid_algo :: int
  guid_address :: bytes

text \<open>\<^verbatim>\<open>utils.Secret(cipher, key, seed)\<close>; the null suite builds its secrets with
  \<^verbatim>\<open>seed=None\<close>.\<close>

record secret =
  secret_cipher :: int
  secret_key :: bytes
  secret_seed :: "bytes option"

text \<open>
  The key objects found in a key bundle: plain bytes (the null suite's
  \<^verbatim>\<open>_dummy_pubkey\<close>), an RSA key (modulus \<open>n\<close>, public exponent, and the private
  exponent when the key is a private one), and the two X25519 key classes of donna25519.
\<close>

datatype keyobj =
    RawKey bytes
  | RSAKey nat nat "nat option"
  | ECDHPrivate bytes
  | ECDHPublic bytes

text \<open>The two families of identity classes: \<^verbatim>\<open>...Identity0\<close> and \<^verbatim>\<open>...Identity1\<close>.\<close>

datatype suite = CS0 | CS1

fun ciphersuite :: "suite \<Rightarrow> int" where
  "ciphersuite CS0 = 0"
| "ciphersuite CS1 = 1"

text \<open>The inner records of an asymmetric request, as \<^verbatim>\<open>utils.AsymHandshake\<close>,
  \<^verbatim>\<open>utils.AsymAck\<close> and \<^verbatim>\<open>utils.AsymNak\<close> hold them: author, target, and a
  secret or a status.\<close>

datatype asym =
    AsymHandshake guid guid secret
  | AsymAck guid guid int
  | AsymNak guid guid int

fun asym_author :: "asym \<Rightarrow> guid" where
  "asym_author (AsymHandshake a t s) = a"
| "asym_author (AsymAck a t st) = a"
| "asym_author (AsymNak a t st) = a"

text \<open>An unpacked GEOC and an unpacked GARQ. \<open>garq_plaintext\<close> is the attribute
  \<^verbatim>\<open>_plaintext\<close>: \<open>None\<close> when the object has no such attribute.\<close>

record geoc =
  geoc_author :: guid
  geoc_payload :: bytes
  geoc_guid :: guid
  geoc_packed :: bytes
  geoc_signature :: bytes

record garq =
  garq_recipient :: guid
  garq_payload :: bytes
  garq_guid :: guid
  garq_packed :: bytes
  garq_signature :: bytes
  garq_plaintext :: "asym option"

text \<open>The state \<^verbatim>\<open>_IdentityBase.__init__\<close> sets, with the class of the object.
  A third-person identity built by \<^verbatim>\<open>from_keys\<close> also carries \<^verbatim>\<open>packed\<close>.\<close>

record third_person =
  tp_class :: suite
  tp_author_guid :: guid
  tp_signature_key :: keyobj
  tp_encryption_key :: keyobj
  tp_exchange_key :: keyobj
  tp_packed :: "bytes option"

text \<open>A first-person identity; \<open>fp_third_party\<close> is the attribute
  \<^verbatim>\<open>_third_party\<close>, \<open>None\<close> when it was never assigned.\<close>

record first_person =
  fp_class :: suite
  fp_address_algo :: int
  fp_third_party :: "third_person option"
  fp_author_guid :: guid
  fp_signature_key :: keyobj
  fp_encryption_key :: keyobj
  fp_exchange_key :: keyobj

text \<open>What a caller can pass where the code checks \<^verbatim>\<open>isinstance\<close>.\<close>

datatype pyobj =
    PNone
  | PBytes bytes
  | PSecret secret
  | PThirdPerson third_person
  | PGEOC geoc
  | PGARQ garq

section \<open>What the module imports\<close>

text \<open>
  The cryptographic primitives (PyCryptodome, donna25519), the serializer
  (\<^verbatim>\<open>golix._getlow\<close>) and the constants of \<^verbatim>\<open>golix.utils\<close> are not part of
  \<^verbatim>\<open>cipher.py\<close>. They are the fields of one record that every function below
  takes as its first argument; nothing is assumed about them unless a theorem says so.
  \<^item> \<open>AES_block\<close>: the AES block function under a key, on 128-bit blocks;
  \<^item> \<open>PSS_sign\<close>, \<open>PSS_verify\<close>: RSASSA-PSS over a precomputed SHA-512 digest
    (\<open>PSS_verify\<close> is \<open>False\<close> where \<^verbatim>\<open>signer.verify\<close> raises \<^verbatim>\<open>ValueError\<close>);
  \<^item> \<open>OAEP_decrypt\<close>: \<^verbatim>\<open>OAEP.new(key).decrypt\<close>;
  \<^item> \<open>X25519_base\<close>, \<open>X25519\<close>: the public key of a private key, and
    \<^verbatim>\<open>do_exchange\<close>;
  \<^item> \<open>HKDF_SHA512\<close> (master, key length, salt) and \<open>HMAC_SHA512\<close> (key, message);
  \<^item> the serializer's \<^verbatim>\<open>pack\<close>, \<^verbatim>\<open>pack_signature\<close> and \<^verbatim>\<open>unpack\<close>, the
    registry \<^verbatim>\<open>ADDRESS_ALGOS\<close> and the placeholder constants. \<open>GEOC_pack\<close> takes
    the author, the payload, the cipher id and the address algorithm and gives the
    object as \<^verbatim>\<open>geoc.pack\<close> leaves it; \<open>GEOC_pack_signature\<close> gives the object
    as \<^verbatim>\<open>geoc.pack_signature\<close> leaves it.
\<close>

record ext =
  AES_block :: "bytes \<Rightarrow> 128 word \<Rightarrow> 128 word"
  PSS_sign :: "keyobj \<Rightarrow> bytes \<Rightarrow> error + bytes"
  PSS_verify :: "keyobj \<Rightarrow> bytes \<Rightarrow> bytes \<Rightarrow> bool"
  OAEP_decrypt :: "keyobj \<Rightarrow> bytes \<Rightarrow> error + bytes"
  X25519_base :: "bytes \<Rightarrow> bytes"
  X25519 :: "bytes \<Rightarrow> bytes \<Rightarrow> bytes"
  HKDF_SHA512 :: "bytes \<Rightarrow> nat \<Rightarrow> bytes \<Rightarrow> bytes"
  HMAC_SHA512 :: "bytes \<Rightarrow> bytes \<Rightarrow> bytes"
  ADDRESS_ALGOS :: "int list"
  dummy_asym :: bytes
  dummy_mac :: bytes
  dummy_signature :: bytes
  dummy_pubkey :: bytes
  GIDC_pack :: "keyobj \<Rightarrow> keyobj \<Rightarrow> keyobj \<Rightarrow> int \<Rightarrow> int \<Rightarrow> error + (guid \<times> bytes)"
  GEOC_pack :: "guid \<Rightarrow> bytes \<Rightarrow> int \<Rightarrow> int \<Rightarrow> error + geoc"
  GEOC_pack_signature :: "geoc \<Rightarrow> bytes \<Rightarrow> error + geoc"
  GEOC_unpack :: "bytes \<Rightarrow> error + geoc"
  GARQ_unpack :: "bytes \<Rightarrow> error + garq"
  GARQHandshake_unpack :: "bytes \<Rightarrow> error + (guid \<times> guid \<times> secret)"
  GARQAck_unpack :: "bytes \<Rightarrow> error + (guid \<times> guid \<times> int)"
  GARQNak_unpack :: "bytes \<Rightarrow> error + (guid \<times> guid \<times> int)"

section \<open>Integers and bytes\<close>

text \<open>\<^verbatim>\<open>int.from_bytes(b, byteorder='big')\<close>.\<close>

definition from_bytes_be :: "bytes \<Rightarrow> nat" where
  "from_bytes_be bs = foldl (\<lambda>acc b. acc * 256 + unat b) 0 bs"

text \<open>The \<open>len\<close> low-order bytes of \<open>n\<close>, most significant first.\<close>

fun be_bytes :: "nat \<Rightarrow> nat \<Rightarrow> bytes" where
  "be_bytes len n =
     (if len = 0 then [] else be_bytes (len - 1) (n div 256) @ [of_nat (n mod 256)])"

declare be_bytes.simps [simp del]

text \<open>\<^verbatim>\<open>int.to_bytes(n, length=len, byteorder='big')\<close>: \<^verbatim>\<open>OverflowError\<close> when \<open>n\<close>
  does not fit.\<close>

definition to_bytes_be :: "nat \<Rightarrow> nat \<Rightarrow> error + bytes" where
  "to_bytes_be n len = (if n < 256 ^ len then Inr (be_bytes len n) else Inl OverflowError)"


section \<open>Sequencing\<close>

text \<open>An exception ends the computation: the rest runs only on a result.\<close>

definition bind_err :: "error + 'a \<Rightarrow> ('a \<Rightarrow> error + 'b) \<Rightarrow> error + 'b" where
  "bind_err m f = (case m of Inl e \<Rightarrow> Inl e | Inr x \<Rightarrow> f x)"

text \<open>\<^verbatim>\<open>try: ... except (KeyError, TypeError) as e: raise RuntimeError(...) from e\<close>.\<close>

definition except_KeyError_TypeError :: "error + 'a \<Rightarrow> error + 'a" where
  "except_KeyError_TypeError m =
     (case m of
        Inl e \<Rightarrow> (if e = KeyError \<or> e = TypeError then Inl RuntimeError else Inl e)
      | Inr x \<Rightarrow> Inr x)"

text \<open>
  The protocol operations call the methods of the ciphersuite contract (the abstract
  methods of \<^verbatim>\<open>_FirstPersonBase\<close>). To state what is called before what, an
  operation returns, with its outcome, the list of the contract methods it called, in
  the order of the calls.
\<close>

datatype call =
    Call_encrypt
  | Call_decrypt
  | Call_sign
  | Call_verify
  | Call_decrypt_asym
  | Call_derive_shared
  | Call_verify_mac

type_synonym 'a run = "call list \<times> (error + 'a)"

definition return_run :: "'a \<Rightarrow> 'a run" where
  "return_run x = ([], Inr x)"

definition raise_run :: "error \<Rightarrow> 'a run" where
  "raise_run e = ([], Inl e)"

text \<open>A step that calls no contract method.\<close>

definition step_run :: "error + 'a \<Rightarrow> 'a run" where
  "step_run r = ([], r)"

text \<open>A call of a contract method, with what it returned or raised.\<close>

definition call_run :: "call \<Rightarrow> error + 'a \<Rightarrow> 'a run" where
  "call_run c r = ([c], r)"

definition then_run :: "'a run \<Rightarrow> ('a \<Rightarrow> 'b run) \<Rightarrow> 'b run" where
  "then_run m f =
     (case m of
        (l, Inl e) \<Rightarrow> (l, Inl e)
      | (l, Inr x) \<Rightarrow> (case f x of (l', r) \<Rightarrow> (l @ l', r)))"

section \<open>Type checks\<close>

text \<open>\<^verbatim>\<open>_IdentityBase._typecheck_secret\<close>.\<close>

definition typecheck_secret :: "suite \<Rightarrow> pyobj \<Rightarrow> bool" where
  "typecheck_secret c obj =
     (case obj of
        PSecret s \<Rightarrow> (if secret_cipher s \<noteq> ciphersuite c then False else True)
      | _ \<Rightarrow> False)"

text \<open>\<^verbatim>\<open>_FirstPersonBase._typecheck_thirdparty\<close>: the partner must be an instance of
  the class \<^verbatim>\<open>_3PID\<close> of the identity's own suite.\<close>

definition typecheck_thirdparty :: "suite \<Rightarrow> pyobj \<Rightarrow> error + bool" where
  "typecheck_thirdparty c obj =
     (case obj of
        PThirdPerson t \<Rightarrow> (if tp_class t = c then Inr True else Inl TypeError)
      | _ \<Rightarrow> Inl TypeError)"

text \<open>\<^verbatim>\<open>_FrozenSHA512(data)\<close>: the digest size of SHA-512 is 64 bytes.\<close>

definition FrozenSHA512 :: "bytes \<Rightarrow> error + bytes" where
  "FrozenSHA512 data = (if length data \<noteq> 64 then Inl ValueError else Inr data)"

section \<open>Symmetric encryption\<close>

subsection \<open>AES in counter mode\<close>

text \<open>
  \<^verbatim>\<open>AES.new(key, AES.MODE_CTR, counter=Counter.new(nbits=128, initial_value=c))\<close>
  is library code. It is modelled as counter mode is defined: block \<open>i\<close> of the key
  stream is the block function applied to the 128-bit big-endian counter \<open>c + i\<close>, and both
  \<^verbatim>\<open>cipher.encrypt\<close> and \<^verbatim>\<open>cipher.decrypt\<close> XOR their input with the key stream.
  The constructor refuses (\<^verbatim>\<open>ValueError\<close>) a key that is not 16, 24 or 32 bytes long and
  an initial value that does not fit the 128-bit counter. The counter is a 128-bit word:
  the block after its last value is block 0.
\<close>

definition ctr_keystream :: "ext \<Rightarrow> bytes \<Rightarrow> nat \<Rightarrow> nat \<Rightarrow> bytes" where
  "ctr_keystream X k c n =
     take n (concat (map (\<lambda>i. be_bytes 16 (unat (AES_block X k (of_nat (c + i)))))
                         [0..<(n + 15) div 16]))"

definition AES_CTR_new :: "bytes \<Rightarrow> nat \<Rightarrow> error + (bytes \<times> nat)" where
  "AES_CTR_new k c =
     (if length k \<noteq> 16 \<and> length k \<noteq> 24 \<and> length k \<noteq> 32 then Inl ValueError
      else if 2 ^ 128 \<le> c then Inl ValueError
      else Inr (k, c))"

definition AES_CTR_encrypt :: "ext \<Rightarrow> bytes \<times> nat \<Rightarrow> bytes \<Rightarrow> bytes" where
  "AES_CTR_encrypt X cipher plaintext =
     map2 (XOR) plaintext (ctr_keystream X (fst cipher) (snd cipher) (length plaintext))"

definition AES_CTR_decrypt :: "ext \<Rightarrow> bytes \<times> nat \<Rightarrow> bytes \<Rightarrow> bytes" where
  "AES_CTR_decrypt X cipher ciphertext =
     map2 (XOR) ciphertext (ctr_keystream X (fst cipher) (snd cipher) (length ciphertext))"

subsection \<open>The two suites\<close>

text \<open>\<^verbatim>\<open>FirstPersonIdentity0._encrypt\<close> and \<^verbatim>\<open>FirstPersonIdentity0._decrypt\<close>: each
  ignores its arguments and returns its placeholder.\<close>

definition cs0_encrypt :: "pyobj \<Rightarrow> bytes \<Rightarrow> error + bytes" where
  "cs0_encrypt secret data =
     Inr (bytes_of ''[[ PLACEHOLDER ENCRYPTED SYMMETRIC MESSAGE. Hello, world? ]]'')"

definition cs0_decrypt :: "pyobj \<Rightarrow> bytes \<Rightarrow> error + bytes" where
  "cs0_decrypt secret data =
     Inr (bytes_of ''[[ PLACEHOLDER DECRYPTED SYMMETRIC MESSAGE. Hello world! ]]'')"

text \<open>\<^verbatim>\<open>FirstPersonIdentity1._encrypt\<close>: the seed read as a big-endian integer starts the
  counter. Reading \<^verbatim>\<open>secret.seed\<close> of an object that is no Secret is an
  \<^verbatim>\<open>AttributeError\<close>, and \<^verbatim>\<open>int.from_bytes(None, ...)\<close> a \<^verbatim>\<open>TypeError\<close>.
  The data is a \<^verbatim>\<open>bytes\<close> object here, on which \<^verbatim>\<open>bytes(data)\<close> changes nothing.\<close>

definition cs1_encrypt :: "ext \<Rightarrow> pyobj \<Rightarrow> bytes \<Rightarrow> error + bytes" where
  "cs1_encrypt X secret data =
     (case secret of
        PSecret s \<Rightarrow>
          (case secret_seed s of
             None \<Rightarrow> Inl TypeError
           | Some sd \<Rightarrow>
               (let ctr_start = from_bytes_be sd in
                case AES_CTR_new (secret_key s) ctr_start of
                  Inl e \<Rightarrow> Inl e
                | Inr cipher \<Rightarrow> Inr (AES_CTR_encrypt X cipher data)))
      | _ \<Rightarrow> Inl AttributeError)"

text \<open>\<^verbatim>\<open>FirstPersonIdentity1._decrypt\<close>.\<close>

definition cs1_decrypt :: "ext \<Rightarrow> pyobj \<Rightarrow> bytes \<Rightarrow> error + bytes" where
  "cs1_decrypt X secret data =
     (case secret of
        PSecret s \<Rightarrow>
          (case secret_seed s of
             None \<Rightarrow> Inl TypeError
           | Some sd \<Rightarrow>
               (let ctr_start = from_bytes_be sd in
                case AES_CTR_new (secret_key s) ctr_start of
                  Inl e \<Rightarrow> Inl e
                | Inr cipher \<Rightarrow> Inr (AES_CTR_decrypt X cipher data)))
      | _ \<Rightarrow> Inl AttributeError)"

text \<open>The method an identity of class \<open>c\<close> runs.\<close>

fun encrypt :: "ext \<Rightarrow> suite \<Rightarrow> pyobj \<Rightarrow> bytes \<Rightarrow> error + bytes" where
  "encrypt X CS0 secret data = cs0_encrypt secret data"
| "encrypt X CS1 secret data = cs1_encrypt X secret data"

fun decrypt :: "ext \<Rightarrow> suite \<Rightarrow> pyobj \<Rightarrow> bytes \<Rightarrow> error + bytes" where
  "decrypt X CS0 secret data = cs0_decrypt secret data"
| "decrypt X CS1 secret data = cs1_decrypt X secret data"

section \<open>Signatures\<close>

text \<open>\<^verbatim>\<open>FirstPersonIdentity0._sign\<close> and \<^verbatim>\<open>FirstPersonIdentity1._sign\<close>.\<close>

definition cs0_sign :: "ext \<Rightarrow> first_person \<Rightarrow> bytes \<Rightarrow> error + bytes" where
  "cs0_sign X self data = Inr (dummy_signature X)"

definition cs1_sign :: "ext \<Rightarrow> first_person \<Rightarrow> bytes \<Rightarrow> error + bytes" where
  "cs1_sign X self data =
     bind_err (FrozenSHA512 data) (\<lambda>h. PSS_sign X (fp_signature_key self) h)"

definition sign :: "ext \<Rightarrow> first_person \<Rightarrow> bytes \<Rightarrow> error + bytes" where
  "sign X self data =
     (case fp_class self of CS0 \<Rightarrow> cs0_sign X self data | CS1 \<Rightarrow> cs1_sign X self data)"

text \<open>\<^verbatim>\<open>FirstPersonIdentity0._verify\<close>: the type check, then \<^verbatim>\<open>True\<close>.\<close>

definition cs0_verify :: "first_person \<Rightarrow> pyobj \<Rightarrow> bytes \<Rightarrow> bytes \<Rightarrow> error + bool" where
  "cs0_verify self public signature data =
     bind_err (typecheck_thirdparty CS0 public) (\<lambda>_. Inr True)"

text \<open>\<^verbatim>\<open>FirstPersonIdentity1._verify\<close>: the type check, the frozen hash (outside the
  \<^verbatim>\<open>try\<close>), then the PSS check, whose \<^verbatim>\<open>ValueError\<close> becomes a
  \<^verbatim>\<open>SecurityError\<close>.\<close>

definition cs1_verify :: "ext \<Rightarrow> first_person \<Rightarrow> pyobj \<Rightarrow> bytes \<Rightarrow> bytes \<Rightarrow> error + bool" where
  "cs1_verify X self public signature data =
     bind_err (typecheck_thirdparty CS1 public) (\<lambda>_.
     bind_err (FrozenSHA512 data) (\<lambda>h.
       (case public of
          PThirdPerson t \<Rightarrow>
            (if PSS_verify X (tp_signature_key t) h signature then Inr True
             else Inl SecurityError)
        | _ \<Rightarrow> Inl AttributeError)))"

definition verify :: "ext \<Rightarrow> first_person \<Rightarrow> pyobj \<Rightarrow> bytes \<Rightarrow> bytes \<Rightarrow> error + bool" where
  "verify X self public signature data =
     (case fp_class self of
        CS0 \<Rightarrow> cs0_verify self public signature data
      | CS1 \<Rightarrow> cs1_verify X self public signature data)"

section \<open>Asymmetric decryption, shared secrets and MACs\<close>

text \<open>\<^verbatim>\<open>_decrypt_asym\<close> of the two suites.\<close>

definition cs0_decrypt_asym :: "ext \<Rightarrow> first_person \<Rightarrow> bytes \<Rightarrow> error + bytes" where
  "cs0_decrypt_asym X self data = Inr (dummy_asym X)"

definition cs1_decrypt_asym :: "ext \<Rightarrow> first_person \<Rightarrow> bytes \<Rightarrow> error + bytes" where
  "cs1_decrypt_asym X self data = OAEP_decrypt X (fp_encryption_key self) data"

definition decrypt_asym :: "ext \<Rightarrow> first_person \<Rightarrow> bytes \<Rightarrow> error + bytes" where
  "decrypt_asym X self data =
     (case fp_class self of
        CS0 \<Rightarrow> cs0_decrypt_asym X self data
      | CS1 \<Rightarrow> cs1_decrypt_asym X self data)"

text \<open>\<^verbatim>\<open>private.do_exchange(public)\<close> of donna25519. Only the private key class has the
  method (for any other key object the call is an \<^verbatim>\<open>AttributeError\<close>); an argument
  that is no public key object is taken to be refused with a \<^verbatim>\<open>TypeError\<close>.\<close>

definition do_exchange :: "ext \<Rightarrow> keyobj \<Rightarrow> keyobj \<Rightarrow> error + bytes" where
  "do_exchange X priv pub =
     (case priv of
        ECDHPrivate a \<Rightarrow>
          (case pub of ECDHPublic b \<Rightarrow> Inr (X25519 X a b) | _ \<Rightarrow> Inl TypeError)
      | _ \<Rightarrow> Inl AttributeError)"

text \<open>\<^verbatim>\<open>FirstPersonIdentity0._derive_shared\<close>.\<close>

definition cs0_derive_shared :: "first_person \<Rightarrow> pyobj \<Rightarrow> error + bytes" where
  "cs0_derive_shared self partner =
     bind_err (typecheck_thirdparty CS0 partner) (\<lambda>_.
       Inr (bytes_of ''[[ Placeholder shared secret ]]''))"

text \<open>\<^verbatim>\<open>FirstPersonIdentity1._derive_shared\<close>: the exchange, then the salt
  \<^verbatim>\<open>bytes([a ^ b for a, b in zip(my_hash, their_hash)])\<close>, then HKDF with
  \<^verbatim>\<open>key_len = SHA512.digest_size\<close>. The method does no type check of its own: the
  attributes of an object that is no identity are an \<^verbatim>\<open>AttributeError\<close>.\<close>

definition cs1_derive_shared :: "ext \<Rightarrow> first_person \<Rightarrow> pyobj \<Rightarrow> error + bytes" where
  "cs1_derive_shared X self partner =
     (case partner of
        PThirdPerson t \<Rightarrow>
          bind_err (do_exchange X (fp_exchange_key self) (tp_exchange_key t)) (\<lambda>ecdh.
            (let my_hash = guid_address (fp_author_guid self);
                 their_hash = guid_address (tp_author_guid t);
                 salt = map2 (XOR) my_hash their_hash
             in Inr (HKDF_SHA512 X ecdh 64 salt)))
      | _ \<Rightarrow> Inl AttributeError)"

definition derive_shared :: "ext \<Rightarrow> first_person \<Rightarrow> pyobj \<Rightarrow> error + bytes" where
  "derive_shared X self partner =
     (case fp_class self of
        CS0 \<Rightarrow> cs0_derive_shared self partner
      | CS1 \<Rightarrow> cs1_derive_shared X self partner)"

text \<open>\<^verbatim>\<open>_mac\<close> and \<^verbatim>\<open>_verify_mac\<close> of the two suites; \<^verbatim>\<open>h.verify(mac)\<close> raises
  \<^verbatim>\<open>ValueError\<close> unless \<open>mac\<close> is the digest.\<close>

definition cs0_mac :: "ext \<Rightarrow> bytes \<Rightarrow> bytes \<Rightarrow> bytes" where
  "cs0_mac X k data = dummy_mac X"

definition cs1_mac :: "ext \<Rightarrow> bytes \<Rightarrow> bytes \<Rightarrow> bytes" where
  "cs1_mac X k data = HMAC_SHA512 X k data"

definition cs0_verify_mac :: "bytes \<Rightarrow> bytes \<Rightarrow> bytes \<Rightarrow> error + bool" where
  "cs0_verify_mac k mac data = Inr True"

definition cs1_verify_mac :: "ext \<Rightarrow> bytes \<Rightarrow> bytes \<Rightarrow> bytes \<Rightarrow> error + bool" where
  "cs1_verify_mac X k mac data =
     (if HMAC_SHA512 X k data = mac then Inr True else Inl SecurityError)"

fun verify_mac :: "ext \<Rightarrow> suite \<Rightarrow> bytes \<Rightarrow> bytes \<Rightarrow> bytes \<Rightarrow> error + bool" where
  "verify_mac X CS0 k mac data = cs0_verify_mac k mac data"
| "verify_mac X CS1 k mac data = cs1_verify_mac X k mac data"

section \<open>Constructing identities\<close>

type_synonym keydict = "string \<rightharpoonup> keyobj"

text \<open>\<^verbatim>\<open>keys[name]\<close>: \<^verbatim>\<open>None\<close> is not subscriptable, a missing key is a
  \<^verbatim>\<open>KeyError\<close>.\<close>

definition getitem :: "keydict option \<Rightarrow> string \<Rightarrow> error + keyobj" where
  "getitem keys name =
     (case keys of
        None \<Rightarrow> Inl TypeError
      | Some d \<Rightarrow> (case d name of None \<Rightarrow> Inl KeyError | Some v \<Rightarrow> Inr v))"

text \<open>\<^verbatim>\<open>_IdentityBase.__init__\<close>: the author guid and the three keys it stores.\<close>

definition IdentityBase_init ::
  "keydict option \<Rightarrow> guid \<Rightarrow> error + (guid \<times> keyobj \<times> keyobj \<times> keyobj)" where
  "IdentityBase_init keys author_guid =
     except_KeyError_TypeError
       (bind_err (getitem keys ''signature'') (\<lambda>sk.
        bind_err (getitem keys ''encryption'') (\<lambda>ek.
        bind_err (getitem keys ''exchange'') (\<lambda>xk.
          Inr (author_guid, sk, ek, xk)))))"

text \<open>Attributes and methods of the key objects.\<close>

definition rsa_n :: "keyobj \<Rightarrow> error + nat" where
  "rsa_n k = (case k of RSAKey n e d \<Rightarrow> Inr n | _ \<Rightarrow> Inl AttributeError)"

definition publickey :: "keyobj \<Rightarrow> error + keyobj" where
  "publickey k = (case k of RSAKey n e d \<Rightarrow> Inr (RSAKey n e None) | _ \<Rightarrow> Inl AttributeError)"

definition ecdh_public :: "keyobj \<Rightarrow> error + bytes" where
  "ecdh_public k = (case k of ECDHPublic b \<Rightarrow> Inr b | _ \<Rightarrow> Inl AttributeError)"

definition get_public :: "ext \<Rightarrow> keyobj \<Rightarrow> error + keyobj" where
  "get_public X k =
     (case k of
        ECDHPrivate a \<Rightarrow> Inr (ECDHPublic (X25519_base X a))
      | _ \<Rightarrow> Inl AttributeError)"

text \<open>\<^verbatim>\<open>ThirdPersonIdentity0._pack_keys\<close> returns its argument;
  \<^verbatim>\<open>ThirdPersonIdentity1._pack_keys\<close> builds the dictionary of the packed keys.\<close>

definition cs0_pack_keys :: "keydict option \<Rightarrow> error + keydict option" where
  "cs0_pack_keys keys = Inr keys"

definition cs1_pack_keys :: "keydict option \<Rightarrow> error + keydict option" where
  "cs1_pack_keys keys =
     bind_err (getitem keys ''signature'') (\<lambda>sk.
     bind_err (rsa_n sk) (\<lambda>sn.
     bind_err (to_bytes_be sn 512) (\<lambda>sb.
     bind_err (getitem keys ''encryption'') (\<lambda>ek.
     bind_err (rsa_n ek) (\<lambda>en.
     bind_err (to_bytes_be en 512) (\<lambda>eb.
     bind_err (getitem keys ''exchange'') (\<lambda>xk.
     bind_err (ecdh_public xk) (\<lambda>xb.
       Inr (Some (Map.empty(''signature'' \<mapsto> RawKey sb, ''encryption'' \<mapsto> RawKey eb,
                            ''exchange'' \<mapsto> RawKey xb)))))))))))"

fun pack_keys :: "suite \<Rightarrow> keydict option \<Rightarrow> error + keydict option" where
  "pack_keys CS0 keys = cs0_pack_keys keys"
| "pack_keys CS1 keys = cs1_pack_keys keys"

text \<open>\<^verbatim>\<open>_ThirdPersonBase.from_keys\<close>: only \<^verbatim>\<open>_pack_keys\<close> stands inside the
  \<^verbatim>\<open>try\<close>; the three reads of \<^verbatim>\<open>packed_keys\<close> that build the GIDC stand after it.\<close>

definition from_keys :: "ext \<Rightarrow> suite \<Rightarrow> keydict option \<Rightarrow> int \<Rightarrow> error + third_person" where
  "from_keys X c keys address_algo =
     bind_err (except_KeyError_TypeError (pack_keys c keys)) (\<lambda>packed_keys.
     bind_err (getitem packed_keys ''signature'') (\<lambda>sk.
     bind_err (getitem packed_keys ''encryption'') (\<lambda>ek.
     bind_err (getitem packed_keys ''exchange'') (\<lambda>xk.
     bind_err (GIDC_pack X sk ek xk (ciphersuite c) address_algo) (\<lambda>gidc.
     bind_err (IdentityBase_init keys (fst gidc)) (\<lambda>(g, s, e, x).
       Inr \<lparr>tp_class = c, tp_author_guid = g, tp_signature_key = s,
            tp_encryption_key = e, tp_exchange_key = x,
            tp_packed = Some (snd gidc)\<rparr>))))))"

text \<open>\<^verbatim>\<open>_dispatch_address\<close>; the argument is the string \<^verbatim>\<open>'default'\<close> or an
  algorithm id.\<close>

datatype algo_arg = Default | Algo int

definition DEFAULT_ADDRESSER :: int where
  "DEFAULT_ADDRESSER = 1"

definition dispatch_address :: "ext \<Rightarrow> algo_arg \<Rightarrow> error + int" where
  "dispatch_address X address_algo =
     (case address_algo of
        Default \<Rightarrow> Inr DEFAULT_ADDRESSER
      | Algo n \<Rightarrow> (if n \<notin> set (ADDRESS_ALGOS X) then Inl ValueError else Inr n))"

text \<open>\<^verbatim>\<open>_generate_keys\<close>. The null suite's keys are the placeholder; the keys of suite 1
  are drawn at random (\<^verbatim>\<open>RSA.generate(4096)\<close> twice, \<^verbatim>\<open>ECDHPrivate()\<close>): the three
  draws are the argument \<open>fresh\<close>.\<close>

definition cs0_generate_keys :: "ext \<Rightarrow> keydict" where
  "cs0_generate_keys X =
     Map.empty(''signature'' \<mapsto> RawKey (dummy_pubkey X),
               ''encryption'' \<mapsto> RawKey (dummy_pubkey X),
               ''exchange'' \<mapsto> RawKey (dummy_pubkey X))"

definition cs1_generate_keys :: "keyobj \<times> keyobj \<times> keyobj \<Rightarrow> keydict" where
  "cs1_generate_keys fresh =
     (case fresh of (sk, ek, xk) \<Rightarrow>
        Map.empty(''signature'' \<mapsto> sk, ''encryption'' \<mapsto> ek, ''exchange'' \<mapsto> xk))"

fun generate_keys :: "ext \<Rightarrow> suite \<Rightarrow> keyobj \<times> keyobj \<times> keyobj \<Rightarrow> keydict" where
  "generate_keys X CS0 fresh = cs0_generate_keys X"
| "generate_keys X CS1 fresh = cs1_generate_keys fresh"

text \<open>\<^verbatim>\<open>_generate_third_person\<close>: the null suite ignores \<open>keys\<close>; suite 1 takes the
  public halves.\<close>

definition cs0_generate_third_person :: "ext \<Rightarrow> keydict \<Rightarrow> int \<Rightarrow> error + third_person" where
  "cs0_generate_third_person X keys address_algo =
     from_keys X CS0
       (Some (Map.empty(''signature'' \<mapsto> RawKey (dummy_pubkey X),
                        ''encryption'' \<mapsto> RawKey (dummy_pubkey X),
                        ''exchange'' \<mapsto> RawKey (dummy_pubkey X))))
       address_algo"

definition cs1_generate_third_person :: "ext \<Rightarrow> keydict \<Rightarrow> int \<Rightarrow> error + third_person" where
  "cs1_generate_third_person X keys address_algo =
     bind_err (getitem (Some keys) ''signature'') (\<lambda>sk.
     bind_err (publickey sk) (\<lambda>spub.
     bind_err (getitem (Some keys) ''encryption'') (\<lambda>ek.
     bind_err (publickey ek) (\<lambda>epub.
     bind_err (getitem (Some keys) ''exchange'') (\<lambda>xk.
     bind_err (get_public X xk) (\<lambda>xpub.
       from_keys X CS1
         (Some (Map.empty(''signature'' \<mapsto> spub, ''encryption'' \<mapsto> epub,
                          ''exchange'' \<mapsto> xpub)))
         address_algo))))))"

fun generate_third_person :: "ext \<Rightarrow> suite \<Rightarrow> keydict \<Rightarrow> int \<Rightarrow> error + third_person" where
  "generate_third_person X CS0 keys address_algo = cs0_generate_third_person X keys address_algo"
| "generate_third_person X CS1 keys address_algo = cs1_generate_third_person X keys address_algo"

text \<open>\<^verbatim>\<open>_FirstPersonBase.__init__\<close> for an identity of class \<open>c\<close>. The branch that
  loads an identity is \<^verbatim>\<open>pass\<close>: it assigns no \<^verbatim>\<open>_third_party\<close>.\<close>

definition FirstPersonBase_init ::
  "ext \<Rightarrow> suite \<Rightarrow> keyobj \<times> keyobj \<times> keyobj \<Rightarrow> keydict option \<Rightarrow> guid option \<Rightarrow> algo_arg
     \<Rightarrow> error + first_person" where
  "FirstPersonBase_init X c fresh keys author_guid address_algo =
     bind_err (dispatch_address X address_algo) (\<lambda>algo.
       (if keys \<noteq> None \<and> author_guid \<noteq> None then
          bind_err (IdentityBase_init keys (the author_guid)) (\<lambda>(g, s, e, x).
            Inr \<lparr>fp_class = c, fp_address_algo = algo, fp_third_party = None,
                 fp_author_guid = g, fp_signature_key = s, fp_encryption_key = e,
                 fp_exchange_key = x\<rparr>)
        else if keys \<noteq> None \<or> author_guid \<noteq> None then Inl TypeError
        else
          (let keys' = generate_keys X c fresh in
           bind_err (generate_third_person X c keys' algo) (\<lambda>tp.
           bind_err (IdentityBase_init (Some keys') (tp_author_guid tp)) (\<lambda>(g, s, e, x).
             Inr \<lparr>fp_class = c, fp_address_algo = algo, fp_third_party = Some tp,
                  fp_author_guid = g, fp_signature_key = s, fp_encryption_key = e,
                  fp_exchange_key = x\<rparr>)))))"

text \<open>The property \<^verbatim>\<open>third_party\<close>: reading an attribute that was never assigned is
  an \<^verbatim>\<open>AttributeError\<close>.\<close>

definition third_party :: "first_person \<Rightarrow> error + third_person" where
  "third_party self =
     (case fp_third_party self of None \<Rightarrow> Inl AttributeError | Some t \<Rightarrow> Inr t)"

section \<open>Protocol operations of a first-person identity\<close>

text \<open>
  After the constructor, no method of the classes assigns an attribute of \<^verbatim>\<open>self\<close>:
  the operations read the identity and return no identity. The only object an operation
  changes is the request envelope (\<^verbatim>\<open>garq._plaintext\<close>).
\<close>

text \<open>\<^verbatim>\<open>_FirstPersonBase.make_object\<close>.\<close>

definition make_object :: "ext \<Rightarrow> first_person \<Rightarrow> pyobj \<Rightarrow> bytes \<Rightarrow> (guid \<times> bytes) run" where
  "make_object X self secret plaintext =
     (if \<not> typecheck_secret (fp_class self) secret then raise_run TypeError
      else
        then_run (call_run Call_encrypt (encrypt X (fp_class self) secret plaintext)) (\<lambda>payload.
        then_run (step_run (GEOC_pack X (fp_author_guid self) payload
                              (ciphersuite (fp_class self)) (fp_address_algo self))) (\<lambda>geoc.
        then_run (call_run Call_sign (sign X self (guid_address (geoc_guid geoc)))) (\<lambda>signature.
        then_run (step_run (GEOC_pack_signature X geoc signature)) (\<lambda>geoc'.
          return_run (geoc_guid geoc', geoc_packed geoc'))))))"

text \<open>\<^verbatim>\<open>_FirstPersonBase.unpack_object\<close>.\<close>

definition unpack_object :: "ext \<Rightarrow> first_person \<Rightarrow> bytes \<Rightarrow> (guid \<times> geoc) run" where
  "unpack_object X self packed =
     then_run (step_run (GEOC_unpack X packed)) (\<lambda>geoc.
       return_run (geoc_author geoc, geoc))"

text \<open>\<^verbatim>\<open>_FirstPersonBase.receive_object\<close>.\<close>

definition receive_object ::
  "ext \<Rightarrow> first_person \<Rightarrow> pyobj \<Rightarrow> pyobj \<Rightarrow> pyobj \<Rightarrow> (guid \<times> bytes) run" where
  "receive_object X self public secret obj =
     (case obj of
        PGEOC g \<Rightarrow>
          (let signature = geoc_signature g in
           then_run (call_run Call_verify
                       (verify X self public signature (guid_address (geoc_guid g)))) (\<lambda>_.
           then_run (call_run Call_decrypt
                       (decrypt X (fp_class self) secret (geoc_payload g))) (\<lambda>plaintext.
             return_run (geoc_guid g, plaintext))))
      | _ \<Rightarrow> raise_run TypeError)"

text \<open>\<^verbatim>\<open>_FirstPersonBase.unpack_request\<close>. Each \<^verbatim>\<open>except ParseError\<close> encloses the
  next attempt; the inner record is built inside the \<^verbatim>\<open>try\<close>.\<close>

definition unpack_request :: "ext \<Rightarrow> first_person \<Rightarrow> bytes \<Rightarrow> (guid \<times> garq) run" where
  "unpack_request X self packed =
     then_run (step_run (GARQ_unpack X packed)) (\<lambda>garq.
     then_run (call_run Call_decrypt_asym (decrypt_asym X self (garq_payload garq))) (\<lambda>plaintext.
     then_run (step_run
        (case GARQHandshake_unpack X plaintext of
           Inr (author, target, secret) \<Rightarrow> Inr (AsymHandshake author target secret)
         | Inl e1 \<Rightarrow>
             (if e1 = ParseError then
                (case GARQAck_unpack X plaintext of
                   Inr (author, target, status) \<Rightarrow> Inr (AsymAck author target status)
                 | Inl e2 \<Rightarrow>
                     (if e2 = ParseError then
                        (case GARQNak_unpack X plaintext of
                           Inr (author, target, status) \<Rightarrow> Inr (AsymNak author target status)
                         | Inl e3 \<Rightarrow>
                             (if e3 = ParseError then Inl SecurityError else Inl e3))
                      else Inl e2))
              else Inl e1))) (\<lambda>request.
       return_run (asym_author request, garq\<lparr>garq_plaintext := Some request\<rparr>))))"

text \<open>\<^verbatim>\<open>_FirstPersonBase.receive_request\<close>. The request object is mutable state: the
  function returns, with the outcome, the object as the call leaves it. The arguments of
  \<^verbatim>\<open>_verify_mac\<close> are evaluated first, so \<^verbatim>\<open>_derive_shared\<close> runs before it.\<close>

definition receive_request ::
  "ext \<Rightarrow> first_person \<Rightarrow> pyobj \<Rightarrow> pyobj \<Rightarrow> asym run \<times> pyobj" where
  "receive_request X self public request =
     (case typecheck_thirdparty (fp_class self) public of
        Inl e \<Rightarrow> (raise_run e, request)
      | Inr _ \<Rightarrow>
          (case request of
             PGARQ r \<Rightarrow>
               (case garq_plaintext r of
                  None \<Rightarrow> (raise_run TypeError, request)
                | Some plaintext \<Rightarrow>
                    (case then_run (call_run Call_derive_shared (derive_shared X self public))
                            (\<lambda>k. call_run Call_verify_mac
                                   (verify_mac X (fp_class self) k (garq_signature r)
                                      (guid_address (garq_guid r)))) of
                       (l, Inl e) \<Rightarrow> ((l, Inl e), request)
                     | (l, Inr _) \<Rightarrow>
                         ((l, Inr plaintext), PGARQ (r\<lparr>garq_plaintext := None\<rparr>))))
           | _ \<Rightarrow> (raise_run TypeError, request)))"

section \<open>The cascade as the specification words it\<close>

text \<open>
  The specification describes the cascade as an ordered list of parsers tried in
  sequence, stopping at the first success: a \<^verbatim>\<open>ParseFailure\<close> advances to the next
  candidate, any other error propagates, and an exhausted list is a
  \<^verbatim>\<open>SecurityFailure\<close>. \<open>first_parse\<close> follows these words, to be compared with the
  nested handlers of \<open>unpack_request\<close>.
\<close>

fun first_parse :: "(bytes \<Rightarrow> error + asym) list \<Rightarrow> bytes \<Rightarrow> error + asym" where
  "first_parse [] plaintext = Inl SecurityError"
| "first_parse (p # ps) plaintext =
     (case p plaintext of
        Inr r \<Rightarrow> Inr r
      | Inl e \<Rightarrow> (if e = ParseError then first_parse ps plaintext else Inl e))"

definition as_handshake :: "ext \<Rightarrow> bytes \<Rightarrow> error + asym" where
  "as_handshake X plaintext =
     bind_err (GARQHandshake_unpack X plaintext) (\<lambda>(a, t, s). Inr (AsymHandshake a t s))"

definition as_ack :: "ext \<Rightarrow> bytes \<Rightarrow> error + asym" where
  "as_ack X plaintext =
     bind_err (GARQAck_unpack X plaintext) (\<lambda>(a, t, st). Inr (AsymAck a t st))"

definition as_nak :: "ext \<Rightarrow> bytes \<Rightarrow> error + asym" where
  "as_nak X plaintext =
     bind_err (GARQNak_unpack X plaintext) (\<lambda>(a, t, st). Inr (AsymNak a t st))"

section \<open>A small instance of the imported parts\<close>

text \<open>
  The theorems below hold for every value of the record \<open>ext\<close>. To run the definitions
  on concrete inputs, \<open>toy\<close> fills the record with small functions: the block function
  complements the counter block, a signature is the digest followed by the low byte of
  the modulus, the exchange adds the keys bytewise, a MAC is two bytes of the key and one
  of the message, an address is 64 copies of one byte, and the three inner parsers accept
  a payload by its first byte (1, 2 and 3; on 4 the handshake parser raises an error that
  is no parse error). Nothing below claims that \<open>toy\<close> is cryptography.
\<close>

text \<open>Two secrets as \<^verbatim>\<open>new_secret\<close> shapes them: the null suite's (a key of 32 zero
  bytes, no seed) and one of suite 1 (a 32-byte key, a 16-byte nonce).\<close>

definition secret0 :: secret where
  "secret0 = \<lparr>secret_cipher = 0, secret_key = replicate 32 0, secret_seed = None\<rparr>"

definition secret1 :: secret where
  "secret1 = \<lparr>secret_cipher = 1, secret_key = replicate 32 7,
               secret_seed = Some [0, 0, 0, 0, 0, 0, 0, 0, 0, 0, 0, 0, 0, 0, 1, 2]\<rparr>"

definition toy_addr :: "byte \<Rightarrow> guid" where
  "toy_addr b = \<lparr>guid_algo = 1, guid_address = replicate 64 b\<rparr>"

definition key_tag :: "keyobj \<Rightarrow> byte" where
  "key_tag k = (case k of RSAKey n e d \<Rightarrow> of_nat n | _ \<Rightarrow> 0)"

definition first_byte :: "bytes \<Rightarrow> byte" where
  "first_byte p = (case p of [] \<Rightarrow> 0 | x # _ \<Rightarrow> x)"

definition toy :: ext where
  "toy = \<lparr>
     AES_block = (\<lambda>k b. NOT b),
     PSS_sign = (\<lambda>k h. Inr (h @ [key_tag k])),
     PSS_verify = (\<lambda>k h s. s = h @ [key_tag k]),
     OAEP_decrypt = (\<lambda>k c. Inr c),
     X25519_base = (\<lambda>a. a),
     X25519 = (\<lambda>a b. map2 (+) a b),
     HKDF_SHA512 = (\<lambda>master n salt. take n (master @ salt)),
     HMAC_SHA512 = (\<lambda>k m. take 2 k @ take 1 m),
     ADDRESS_ALGOS = [0, 1],
     dummy_asym = [0],
     dummy_mac = [1],
     dummy_signature = [2],
     dummy_pubkey = [3],
     GIDC_pack = (\<lambda>sk ek xk cipher algo.
        Inr (toy_addr (case xk of RawKey b \<Rightarrow> first_byte b | _ \<Rightarrow> 0), [4])),
     GEOC_pack = (\<lambda>author payload cipher algo.
        Inr \<lparr>geoc_author = author, geoc_payload = payload,
             geoc_guid = toy_addr (first_byte payload), geoc_packed = payload,
             geoc_signature = []\<rparr>),
     GEOC_pack_signature = (\<lambda>g s.
        Inr (g\<lparr>geoc_packed := geoc_packed g @ s, geoc_signature := s\<rparr>)),
     GEOC_unpack = (\<lambda>p. Inl ParseError),
     GARQ_unpack = (\<lambda>p.
        Inr \<lparr>garq_recipient = toy_addr 5, garq_payload = take 1 p,
             garq_guid = toy_addr (first_byte p), garq_packed = p,
             garq_signature = drop 1 p, garq_plaintext = None\<rparr>),
     GARQHandshake_unpack = (\<lambda>p.
        if first_byte p = 1 then Inr (toy_addr 1, toy_addr 10, secret1)
        else if first_byte p = 4 then Inl ValueError else Inl ParseError),
     GARQAck_unpack = (\<lambda>p.
        if first_byte p = 2 then Inr (toy_addr 1, toy_addr 10, 0) else Inl ParseError),
     GARQNak_unpack = (\<lambda>p.
        if first_byte p = 3 then Inr (toy_addr 1, toy_addr 10, 1) else Inl ParseError)
   \<rparr>"

text \<open>Three identities of suite 1, each with its public half, shaped as
  \<^verbatim>\<open>FirstPersonIdentity1()\<close> shapes them over \<open>toy\<close>: the third-person identity holds
  the public keys, and the author guid is the one \<open>GIDC_pack\<close> of \<open>toy\<close> gives.\<close>

definition alice_public :: third_person where
  "alice_public = \<lparr>tp_class = CS1, tp_author_guid = toy_addr 1,
     tp_signature_key = RSAKey 187 7 None, tp_encryption_key = RSAKey 143 7 None,
     tp_exchange_key = ECDHPublic [1, 2, 3], tp_packed = Some [4]\<rparr>"

definition alice :: first_person where
  "alice = \<lparr>fp_class = CS1, fp_address_algo = 1, fp_third_party = Some alice_public,
     fp_author_guid = toy_addr 1,
     fp_signature_key = RSAKey 187 7 (Some 23), fp_encryption_key = RSAKey 143 7 (Some 103),
     fp_exchange_key = ECDHPrivate [1, 2, 3]\<rparr>"

definition bob_public :: third_person where
  "bob_public = \<lparr>tp_class = CS1, tp_author_guid = toy_addr 5,
     tp_signature_key = RSAKey 221 5 None, tp_encryption_key = RSAKey 209 7 None,
     tp_exchange_key = ECDHPublic [5, 6, 7], tp_packed = Some [4]\<rparr>"

definition bob :: first_person where
  "bob = \<lparr>fp_class = CS1, fp_address_algo = 1, fp_third_party = Some bob_public,
     fp_author_guid = toy_addr 5,
     fp_signature_key = RSAKey 221 5 (Some 77), fp_encryption_key = RSAKey 209 7 (Some 103),
     fp_exchange_key = ECDHPrivate [5, 6, 7]\<rparr>"

definition eve_public :: third_person where
  "eve_public = \<lparr>tp_class = CS1, tp_author_guid = toy_addr 9,
     tp_signature_key = RSAKey 253 3 None, tp_encryption_key = RSAKey 247 5 None,
     tp_exchange_key = ECDHPublic [9, 9, 9], tp_packed = Some [4]\<rparr>"

text \<open>The null suite's key bundle, and the identity that loading it with an author guid
  gives.\<close>

definition dummy_keys :: keydict where
  "dummy_keys = Map.empty(''signature'' \<mapsto> RawKey [3], ''encryption'' \<mapsto> RawKey [3],
                          ''exchange'' \<mapsto> RawKey [3])"

definition loaded0 :: first_person where
  "loaded0 = \<lparr>fp_class = CS0, fp_address_algo = 1, fp_third_party = None,
     fp_author_guid = toy_addr 1,
     fp_signature_key = RawKey [3], fp_encryption_key = RawKey [3],
     fp_exchange_key = RawKey [3]\<rparr>"

text \<open>The identity \<^verbatim>\<open>FirstPersonIdentity0()\<close> generates over \<open>toy\<close>.\<close>

definition generated0_public :: third_person where
  "generated0_public = \<lparr>tp_class = CS0, tp_author_guid = toy_addr 3,
     tp_signature_key = RawKey [3], tp_encryption_key = RawKey [3],
     tp_exchange_key = RawKey [3], tp_packed = Some [4]\<rparr>"

definition generated0 :: first_person where
  "generated0 = \<lparr>fp_class = CS0, fp_address_algo = 1, fp_third_party = Some generated0_public,
     fp_author_guid = toy_addr 3,
     fp_signature_key = RawKey [3], fp_encryption_key = RawKey [3],
     fp_exchange_key = RawKey [3]\<rparr>"

text \<open>The object \<open>alice\<close> makes of \<^verbatim>\<open>b'hello'\<close> under \<open>secret1\<close>, and the same object
  with the last byte of its signature changed.\<close>

definition hello_geoc :: geoc where
  "hello_geoc = \<lparr>geoc_author = toy_addr 1, geoc_payload = [151, 154, 147, 147, 144],
     geoc_guid = toy_addr 151,
     geoc_packed = [151, 154, 147, 147, 144] @ replicate 64 151 @ [187],
     geoc_signature = replicate 64 151 @ [187]\<rparr>"

definition tampered_geoc :: geoc where
  "tampered_geoc = hello_geoc\<lparr>geoc_signature := replicate 64 151 @ [186]\<rparr>"

text \<open>A request to \<open>bob\<close> whose MAC is the one \<open>alice\<close> and \<open>bob\<close> share, as
  \<^verbatim>\<open>unpack_request\<close> leaves it.\<close>

definition ack_request :: garq where
  "ack_request = \<lparr>garq_recipient = toy_addr 5, garq_payload = [2],
     garq_guid = toy_addr 2, garq_packed = [2, 6, 8, 2],
     garq_signature = [6, 8, 2],
     garq_plaintext = Some (AsymAck (toy_addr 1) (toy_addr 10) 0)\<rparr>"

section \<open>Auxiliary facts\<close>

lemma length_be_bytes: "length (be_bytes len n) = len"
proof (induction len n rule: be_bytes.induct)
  case (1 len n)
  then show ?case by (subst be_bytes.simps) simp
qed

lemma length_concat_blocks:
  "length (concat (map (\<lambda>i. be_bytes 16 (f i)) xs)) = 16 * length xs"
  by (induction xs) (simp_all add: length_be_bytes)

lemma length_ctr_keystream: "length (ctr_keystream X k c n) = n"
proof -
  have "n \<le> 16 * ((n + 15) div 16)" by arith
  then show ?thesis
    unfolding ctr_keystream_def by (simp add: length_concat_blocks)
qed

lemma xor_stream_twice:
  "length ks = length p \<Longrightarrow> map2 (XOR) (map2 (XOR) p ks) ks = (p :: bytes)"
  by (induction p ks rule: list_induct2') (simp_all add: xor.assoc)

lemma AES_CTR_round_trip:
  "AES_CTR_decrypt X cipher (AES_CTR_encrypt X cipher p) = p"
  unfolding AES_CTR_decrypt_def AES_CTR_encrypt_def
  by (simp add: length_ctr_keystream xor_stream_twice)

lemma from_bytes_be_bound_aux:
  "acc < 256 ^ m \<Longrightarrow>
   foldl (\<lambda>acc b. acc * 256 + unat (b :: byte)) acc bs < 256 ^ (m + length bs)"
proof (induction bs arbitrary: acc m)
  case Nil
  then show ?case by simp
next
  case (Cons b bs)
  have "unat b < 256" using unsigned_less [of b] by simp
  with Cons.prems have "acc * 256 + unat b < 256 ^ Suc m" by simp
  from Cons.IH [OF this] show ?case by simp
qed

lemma from_bytes_be_bound: "from_bytes_be bs < 256 ^ length bs"
  unfolding from_bytes_be_def using from_bytes_be_bound_aux [of 0 0 bs] by simp

lemma AES_CTR_new_ok:
  assumes "length k = 16 \<or> length k = 24 \<or> length k = 32" and "length sd \<le> 16"
  shows "AES_CTR_new k (from_bytes_be sd) = Inr (k, from_bytes_be sd)"
proof -
  have "from_bytes_be sd < 256 ^ length sd" by (rule from_bytes_be_bound)
  also have "(256::nat) ^ length sd \<le> 256 ^ 16"
    using assms(2) by (intro power_increasing) simp_all
  also have "(256::nat) ^ 16 = 2 ^ 128" by simp
  finally have "\<not> 2 ^ 128 \<le> from_bytes_be sd" by simp
  with assms(1) show ?thesis unfolding AES_CTR_new_def by auto
qed

lemma length_bytes_of: "length (bytes_of s) = length s"
  by (simp add: bytes_of_def)

text \<open>The key stream of \<open>toy\<close> for the counter 258 (the seed of \<open>secret1\<close>).\<close>

lemma toy_keystream:
  assumes "n = 5"
  shows "ctr_keystream toy k 258 n = [255, 255, 255, 255, 255]"
proof -
  have "ctr_keystream toy k 258 5 = take 5 (be_bytes 16 (unat (NOT (258::128 word))))"
    by (simp add: ctr_keystream_def toy_def)
  also have "\<dots> = [255, 255, 255, 255, 255]"
    by (simp add: be_bytes.simps)
  finally show ?thesis unfolding assms .
qed

lemma toy_cs1_encrypt_hello:
  "cs1_encrypt toy (PSecret secret1) (bytes_of ''hello'') = Inr [151, 154, 147, 147, 144]"
  by (simp add: secret1_def cs1_encrypt_def AES_CTR_new_def AES_CTR_encrypt_def
      from_bytes_be_def bytes_of_def toy_keystream)

text \<open>How the steps of an operation compose.\<close>

lemma then_run_call_run:
  "then_run (call_run c r) f =
     (case r of Inl e \<Rightarrow> ([c], Inl e) | Inr x \<Rightarrow> (c # fst (f x), snd (f x)))"
  by (simp add: then_run_def call_run_def split: sum.splits prod.splits)

lemma then_run_step_run:
  "then_run (step_run r) f = (case r of Inl e \<Rightarrow> ([], Inl e) | Inr x \<Rightarrow> f x)"
  by (simp add: then_run_def step_run_def split: sum.splits prod.splits)

lemma verify_returns_True: "verify X self public sg d = Inr b \<Longrightarrow> b"
  by (auto simp: verify_def cs0_verify_def cs1_verify_def bind_err_def
      split: suite.splits sum.splits pyobj.splits if_splits)

lemma cs1_verify_rejects:
  assumes "fp_class self = CS1" and "tp_class t = CS1" and "length d = 64"
    and "\<not> PSS_verify X (tp_signature_key t) d sg"
  shows "verify X self (PThirdPerson t) sg d = Inl SecurityError"
  using assms
  by (simp add: verify_def cs1_verify_def typecheck_thirdparty_def FrozenSHA512_def bind_err_def)

lemma toy_cs1_decrypt_hello:
  "cs1_decrypt toy (PSecret secret1) [151, 154, 147, 147, 144] = Inr (bytes_of ''hello'')"
  by (simp add: secret1_def cs1_decrypt_def AES_CTR_new_def AES_CTR_decrypt_def
      from_bytes_be_def bytes_of_def toy_keystream)

lemma toy_PSS_verify: "PSS_verify toy k h s = (s = h @ [key_tag k])"
  by (simp add: toy_def)

lemma toy_PSS_sign: "PSS_sign toy k h = Inr (h @ [key_tag k])"
  by (simp add: toy_def)

lemma typecheck_secret_iff:
  "typecheck_secret c obj = (\<exists>s. obj = PSecret s \<and> secret_cipher s = ciphersuite c)"
  by (cases obj) (simp_all add: typecheck_secret_def)

lemma first_parse_candidates:
  "first_parse [as_handshake X, as_ack X, as_nak X] pt =
     (case GARQHandshake_unpack X pt of
        Inr (author, target, secret) \<Rightarrow> Inr (AsymHandshake author target secret)
      | Inl e1 \<Rightarrow>
          (if e1 = ParseError then
             (case GARQAck_unpack X pt of
                Inr (author, target, status) \<Rightarrow> Inr (AsymAck author target status)
              | Inl e2 \<Rightarrow>
                  (if e2 = ParseError then
                     (case GARQNak_unpack X pt of
                        Inr (author, target, status) \<Rightarrow> Inr (AsymNak author target status)
                      | Inl e3 \<Rightarrow> (if e3 = ParseError then Inl SecurityError else Inl e3))
                   else Inl e2))
           else Inl e1))"
  by (simp add: as_handshake_def as_ack_def as_nak_def bind_err_def split: sum.splits prod.splits)

lemma toy_derive_shared_bob_alice:
  "derive_shared toy bob (PThirdPerson alice_public) = Inr (6 # 8 # 10 # replicate 61 4)"
  by (simp add: derive_shared_def cs1_derive_shared_def do_exchange_def bind_err_def Let_def
      bob_def alice_public_def toy_def toy_addr_def)

lemma toy_derive_shared_bob_eve:
  "derive_shared toy bob (PThirdPerson eve_public) = Inr (14 # 15 # 16 # replicate 61 12)"
  by (simp add: derive_shared_def cs1_derive_shared_def do_exchange_def bind_err_def Let_def
      bob_def eve_public_def toy_def toy_addr_def)

lemma toy_HMAC: "HMAC_SHA512 toy k m = take 2 k @ take 1 m"
  by (simp add: toy_def)

lemma toy_typecheck_alice:
  "typecheck_thirdparty (fp_class bob) (PThirdPerson alice_public) = Inr True"
  by (simp add: typecheck_thirdparty_def bob_def alice_public_def)

lemma toy_typecheck_eve:
  "typecheck_thirdparty (fp_class bob) (PThirdPerson eve_public) = Inr True"
  by (simp add: typecheck_thirdparty_def bob_def eve_public_def)

lemma toy_verify_mac_alice:
  "verify_mac toy (fp_class bob) (6 # 8 # 10 # replicate 61 4) (garq_signature ack_request)
     (guid_address (garq_guid ack_request)) = Inr True"
  by (simp add: cs1_verify_mac_def toy_HMAC bob_def ack_request_def toy_addr_def)

lemma toy_receive_ack_request:
  "receive_request toy bob (PThirdPerson alice_public) (PGARQ ack_request)
     = (([Call_derive_shared, Call_verify_mac], Inr (AsymAck (toy_addr 1) (toy_addr 10) 0)),
        PGARQ (ack_request\<lparr>garq_plaintext := None\<rparr>))"
proof -
  have p: "garq_plaintext ack_request = Some (AsymAck (toy_addr 1) (toy_addr 10) 0)"
    by (simp add: ack_request_def)
  show ?thesis
    by (simp add: receive_request_def toy_typecheck_alice p toy_derive_shared_bob_alice
        toy_verify_mac_alice then_run_def call_run_def)
qed

lemma toy_verify_mac_eve:
  "verify_mac toy (fp_class bob) (14 # 15 # 16 # replicate 61 12) (garq_signature ack_request)
     (guid_address (garq_guid ack_request)) = Inl SecurityError"
  by (simp add: cs1_verify_mac_def toy_HMAC bob_def ack_request_def toy_addr_def)

lemma toy_parsers:
  "GARQHandshake_unpack toy p =
     (if first_byte p = 1 then Inr (toy_addr 1, toy_addr 10, secret1)
      else if first_byte p = 4 then Inl ValueError else Inl ParseError)"
  "GARQAck_unpack toy p =
     (if first_byte p = 2 then Inr (toy_addr 1, toy_addr 10, 0) else Inl ParseError)"
  "GARQNak_unpack toy p =
     (if first_byte p = 3 then Inr (toy_addr 1, toy_addr 10, 1) else Inl ParseError)"
  by (simp_all add: toy_def)

lemma toy_first_parse:
  "first_parse [as_handshake toy, as_ack toy, as_nak toy] [2]
     = Inr (AsymAck (toy_addr 1) (toy_addr 10) 0)"
  "first_parse [as_handshake toy, as_ack toy, as_nak toy] [9] = Inl SecurityError"
  "first_parse [as_handshake toy, as_ack toy, as_nak toy] [4] = Inl ValueError"
  by (simp_all add: as_handshake_def as_ack_def as_nak_def bind_err_def toy_parsers
      first_byte_def)

text \<open>Facts about the constructors.\<close>

lemma map2_xor_commute: "map2 (XOR) xs ys = map2 (XOR) ys (xs :: bytes)"
  by (induction xs ys rule: list_induct2') (simp_all add: xor.commute)

lemma map2_plus_commute: "map2 (+) xs ys = map2 (+) ys (xs :: bytes)"
  by (induction xs ys rule: list_induct2') (simp_all add: add.commute)

lemma IdentityBase_init_Inr:
  "IdentityBase_init keys g = Inr r \<Longrightarrow>
     \<exists>d sk ek xk. keys = Some d \<and> d ''signature'' = Some sk \<and> d ''encryption'' = Some ek
        \<and> d ''exchange'' = Some xk \<and> r = (g, sk, ek, xk)"
  by (auto simp: IdentityBase_init_def except_KeyError_TypeError_def bind_err_def getitem_def
      split: sum.splits option.splits if_splits)

lemma IdentityBase_init_missing:
  "d ''signature'' = None \<or> d ''encryption'' = None \<or> d ''exchange'' = None \<Longrightarrow>
     IdentityBase_init (Some d) g = Inl RuntimeError"
  by (auto simp: IdentityBase_init_def except_KeyError_TypeError_def bind_err_def getitem_def
      split: sum.splits option.splits)

lemma from_keys_Inr:
  "from_keys X c keys a = Inr tp \<Longrightarrow>
     \<exists>d xk. keys = Some d \<and> d ''exchange'' = Some xk \<and> tp_class tp = c
        \<and> tp_exchange_key tp = xk"
proof -
  assume a: "from_keys X c keys a = Inr tp"
  then obtain gidc r where i: "IdentityBase_init keys (fst gidc) = Inr r"
    and t: "(case r of (g, s, e, x) \<Rightarrow>
              Inr \<lparr>tp_class = c, tp_author_guid = g, tp_signature_key = s,
                   tp_encryption_key = e, tp_exchange_key = x,
                   tp_packed = Some (snd gidc)\<rparr>) = (Inr tp :: error + third_person)"
    by (auto simp: from_keys_def bind_err_def split: sum.splits)
  from IdentityBase_init_Inr [OF i] t show ?thesis by auto
qed

lemma generate_third_person_Inr:
  "generate_third_person X c keys a = Inr tp \<Longrightarrow> tp_class tp = c"
  by (cases c)
     (auto simp: cs0_generate_third_person_def cs1_generate_third_person_def bind_err_def
       split: sum.splits dest: from_keys_Inr)

lemma cs1_generate_third_person_exchange:
  "generate_third_person X CS1 keys a = Inr tp \<Longrightarrow>
     \<exists>xk. keys ''exchange'' = Some xk \<and> get_public X xk = Inr (tp_exchange_key tp)"
  by (auto simp: cs1_generate_third_person_def bind_err_def getitem_def
       split: sum.splits option.splits dest!: from_keys_Inr)

lemma get_public_Inr:
  "get_public X k = Inr p \<Longrightarrow> \<exists>a. k = ECDHPrivate a \<and> p = ECDHPublic (X25519_base X a)"
  by (cases k) (auto simp: get_public_def)

lemma toy_generate0:
  "FirstPersonBase_init toy CS0 fresh None None Default = Inr generated0"
proof -
  have g: "GIDC_pack toy (RawKey [3]) (RawKey [3]) (RawKey [3]) 0 1 = Inr (toy_addr 3, [4])"
    by (simp add: toy_def first_byte_def)
  have d: "dummy_pubkey toy = [3]"
    by (simp add: toy_def)
  have t: "cs0_generate_third_person toy ks 1 = Inr generated0_public" for ks
    by (simp add: cs0_generate_third_person_def from_keys_def cs0_pack_keys_def
        except_KeyError_TypeError_def bind_err_def getitem_def IdentityBase_init_def d g
        generated0_public_def)
  show ?thesis
    by (simp add: FirstPersonBase_init_def dispatch_address_def DEFAULT_ADDRESSER_def t
        bind_err_def cs0_generate_keys_def d IdentityBase_init_def getitem_def Let_def
        except_KeyError_TypeError_def generated0_def generated0_public_def)
qed

lemma toy_load0:
  "FirstPersonBase_init toy CS0 fresh (Some dummy_keys) (Some (toy_addr 1)) Default = Inr loaded0"
  by (simp add: FirstPersonBase_init_def dispatch_address_def DEFAULT_ADDRESSER_def
      bind_err_def dummy_keys_def IdentityBase_init_def getitem_def
      except_KeyError_TypeError_def loaded0_def)

section \<open>Symmetric encryption: the claims\<close>

text \<open>
  C10. In suite 1 symmetric encryption and decryption are the same function: for every
  secret (or other object passed as one) and every input,
  \<^verbatim>\<open>_encrypt(secret, data)\<close> and \<^verbatim>\<open>_decrypt(secret, data)\<close> raise the same
  exception or return the same bytes: the input XORed with the key stream built from the
  key and the big-endian nonce.
\<close>

theorem cs1_encrypt_is_cs1_decrypt:
  "cs1_encrypt X secret data = cs1_decrypt X secret data"
  unfolding cs1_encrypt_def cs1_decrypt_def AES_CTR_encrypt_def AES_CTR_decrypt_def
  by (rule refl)

theorem cs1_encrypt_is_cs1_decrypt_witness:
  "cs1_encrypt toy (PSecret secret1) (bytes_of ''hello'') = Inr [151, 154, 147, 147, 144]
   \<and> cs1_decrypt toy (PSecret secret1) (bytes_of ''hello'') = Inr [151, 154, 147, 147, 144]"
  using cs1_encrypt_is_cs1_decrypt [of toy "PSecret secret1" "bytes_of ''hello''"]
    toy_cs1_encrypt_hello
  by (simp only: simp_thms)

text \<open>
  C5, as the code has it. The round trip holds in suite 1: whenever
  \<^verbatim>\<open>_encrypt(s, p)\<close> returns \<open>c\<close>, \<^verbatim>\<open>_decrypt(s, c)\<close> returns \<open>p\<close>; and encryption
  returns for every Secret with a key of 16, 24 or 32 bytes and a seed of at most 16
  bytes. The null suite is a placeholder: its \<^verbatim>\<open>_decrypt\<close> returns a fixed constant.
\<close>

theorem cs1_round_trip:
  "(encrypt X CS1 s p = Inr c \<longrightarrow> decrypt X CS1 s c = Inr p)
   \<and> (secret_seed k = Some sd \<and> length sd \<le> 16
        \<and> (length (secret_key k) = 16 \<or> length (secret_key k) = 24
             \<or> length (secret_key k) = 32)
      \<longrightarrow> (\<exists>c'. encrypt X CS1 (PSecret k) p = Inr c' \<and> decrypt X CS1 (PSecret k) c' = Inr p))"
proof (intro conjI impI)
  assume "encrypt X CS1 s p = Inr c"
  then show "decrypt X CS1 s c = Inr p"
    by (auto simp: cs1_encrypt_def cs1_decrypt_def Let_def AES_CTR_round_trip
        split: pyobj.splits option.splits sum.splits)
next
  assume a: "secret_seed k = Some sd \<and> length sd \<le> 16
        \<and> (length (secret_key k) = 16 \<or> length (secret_key k) = 24
             \<or> length (secret_key k) = 32)"
  then have "AES_CTR_new (secret_key k) (from_bytes_be sd) = Inr (secret_key k, from_bytes_be sd)"
    by (intro AES_CTR_new_ok) simp_all
  with a show "\<exists>c'. encrypt X CS1 (PSecret k) p = Inr c' \<and> decrypt X CS1 (PSecret k) c' = Inr p"
    by (simp add: cs1_encrypt_def cs1_decrypt_def Let_def AES_CTR_round_trip)
qed

theorem cs1_round_trip_witness:
  "encrypt toy CS1 (PSecret secret1) (bytes_of ''hello'') = Inr [151, 154, 147, 147, 144]
   \<and> decrypt toy CS1 (PSecret secret1) [151, 154, 147, 147, 144] = Inr (bytes_of ''hello'')"
proof -
  have e: "encrypt toy CS1 (PSecret secret1) (bytes_of ''hello'') = Inr [151, 154, 147, 147, 144]"
    using toy_cs1_encrypt_hello by (simp only: encrypt.simps)
  from cs1_round_trip [of toy "PSecret secret1" "bytes_of ''hello''" "[151, 154, 147, 147, 144]"]
  have "encrypt toy CS1 (PSecret secret1) (bytes_of ''hello'') = Inr [151, 154, 147, 147, 144]
        \<longrightarrow> decrypt toy CS1 (PSecret secret1) [151, 154, 147, 147, 144] = Inr (bytes_of ''hello'')"
    by (rule conjunct1)
  with e show ?thesis by (intro conjI) (rule e, erule mp, rule e)
qed

text \<open>
  C5 as stated fails in the null suite: \<^verbatim>\<open>FirstPersonIdentity0._decrypt\<close> of
  \<^verbatim>\<open>FirstPersonIdentity0._encrypt(s, b'hello')\<close> is the placeholder, not
  \<^verbatim>\<open>b'hello'\<close>.
\<close>

theorem round_trip_cs0_counterexample:
  "bind_err (encrypt toy CS0 (PSecret secret0) (bytes_of ''hello''))
            (decrypt toy CS0 (PSecret secret0)) \<noteq> Inr (bytes_of ''hello'')"
proof
  assume "bind_err (encrypt toy CS0 (PSecret secret0) (bytes_of ''hello''))
            (decrypt toy CS0 (PSecret secret0)) = Inr (bytes_of ''hello'')"
  then have "bytes_of ''[[ PLACEHOLDER DECRYPTED SYMMETRIC MESSAGE. Hello world! ]]''
               = bytes_of ''hello''"
    by (simp add: bind_err_def cs0_encrypt_def cs0_decrypt_def)
  then have "length (bytes_of ''[[ PLACEHOLDER DECRYPTED SYMMETRIC MESSAGE. Hello world! ]]'')
               = length (bytes_of ''hello'')"
    by (rule arg_cong)
  then show False by (simp add: length_bytes_of)
qed

section \<open>Objects: the claims\<close>

lemma cs1_verify_accepts:
  assumes "fp_class self = CS1" and "tp_class t = CS1" and "length d = 64"
    and "PSS_verify X (tp_signature_key t) d sg"
  shows "verify X self (PThirdPerson t) sg d = Inr True"
  using assms
  by (simp add: verify_def cs1_verify_def typecheck_thirdparty_def FrozenSHA512_def bind_err_def)

lemma receive_object_after_verify:
  "verify X self public (geoc_signature g) (guid_address (geoc_guid g)) = Inr b
   \<Longrightarrow> receive_object X self public secret (PGEOC g)
         = ([Call_verify, Call_decrypt],
            case decrypt X (fp_class self) secret (geoc_payload g) of
              Inl e \<Rightarrow> Inl e
            | Inr pt \<Rightarrow> Inr (geoc_guid g, pt))"
  by (simp add: receive_object_def Let_def then_run_call_run return_run_def split: sum.splits)

text \<open>
  C1. \<^verbatim>\<open>receive_object\<close> on an unpacked GEOC first verifies the signature over the
  object's address with the sender's public signature key, and only then decrypts the
  payload with the secret.
  \<^item> Whatever \<^verbatim>\<open>_verify\<close> raises is what \<^verbatim>\<open>receive_object\<close> raises, with
    \<^verbatim>\<open>_decrypt\<close> never called.
  \<^item> When \<^verbatim>\<open>_verify\<close> returns, \<^verbatim>\<open>_decrypt\<close> is called next, on the payload
    with the secret, and nothing else: what it raises is raised, and the plaintext it
    returns is returned with the object's guid.
  \<^item> A result is returned only when the signature verified, and then it is the
    object's guid with the decrypted payload.
  \<^item> In suite 1, with a sender of suite 1 and an address of 64 bytes, a signature that
    the PSS check under the sender's public signature key refuses is a
    \<^verbatim>\<open>SecurityError\<close> with no decryption, and one that it accepts leads to the
    decryption.
  \<^item> An object that is no GEOC is a \<^verbatim>\<open>TypeError\<close>, with nothing called.
\<close>

theorem receive_object_verifies_then_decrypts:
  "(\<forall>e. verify X self public (geoc_signature g) (guid_address (geoc_guid g)) = Inl e
        \<longrightarrow> receive_object X self public secret (PGEOC g) = ([Call_verify], Inl e))
   \<and> (\<forall>b. verify X self public (geoc_signature g) (guid_address (geoc_guid g)) = Inr b
        \<longrightarrow> receive_object X self public secret (PGEOC g)
              = ([Call_verify, Call_decrypt],
                 case decrypt X (fp_class self) secret (geoc_payload g) of
                   Inl e \<Rightarrow> Inl e
                 | Inr pt \<Rightarrow> Inr (geoc_guid g, pt)))
   \<and> (\<forall>gd pt. snd (receive_object X self public secret (PGEOC g)) = Inr (gd, pt)
        \<longrightarrow> verify X self public (geoc_signature g) (guid_address (geoc_guid g)) = Inr True
            \<and> fst (receive_object X self public secret (PGEOC g)) = [Call_verify, Call_decrypt]
            \<and> gd = geoc_guid g
            \<and> decrypt X (fp_class self) secret (geoc_payload g) = Inr pt)
   \<and> (fp_class self = CS1 \<and> tp_class t = CS1 \<and> length (guid_address (geoc_guid g)) = 64
        \<and> \<not> PSS_verify X (tp_signature_key t) (guid_address (geoc_guid g)) (geoc_signature g)
        \<longrightarrow> receive_object X self (PThirdPerson t) secret (PGEOC g)
              = ([Call_verify], Inl SecurityError))
   \<and> (fp_class self = CS1 \<and> tp_class t = CS1 \<and> length (guid_address (geoc_guid g)) = 64
        \<and> PSS_verify X (tp_signature_key t) (guid_address (geoc_guid g)) (geoc_signature g)
        \<longrightarrow> receive_object X self (PThirdPerson t) secret (PGEOC g)
              = ([Call_verify, Call_decrypt],
                 case decrypt X CS1 secret (geoc_payload g) of
                   Inl e \<Rightarrow> Inl e
                 | Inr pt \<Rightarrow> Inr (geoc_guid g, pt)))
   \<and> ((\<forall>g'. obj \<noteq> PGEOC g')
        \<longrightarrow> receive_object X self public secret obj = ([], Inl TypeError))"
proof (intro conjI allI impI)
  fix e
  assume "verify X self public (geoc_signature g) (guid_address (geoc_guid g)) = Inl e"
  then show "receive_object X self public secret (PGEOC g) = ([Call_verify], Inl e)"
    by (simp add: receive_object_def Let_def then_run_call_run)
next
  fix b
  assume "verify X self public (geoc_signature g) (guid_address (geoc_guid g)) = Inr b"
  then show "receive_object X self public secret (PGEOC g)
               = ([Call_verify, Call_decrypt],
                  case decrypt X (fp_class self) secret (geoc_payload g) of
                    Inl e \<Rightarrow> Inl e
                  | Inr pt \<Rightarrow> Inr (geoc_guid g, pt))"
    by (rule receive_object_after_verify)
next
  fix gd pt
  assume r: "snd (receive_object X self public secret (PGEOC g)) = Inr (gd, pt)"
  then obtain b where v: "verify X self public (geoc_signature g) (guid_address (geoc_guid g)) = Inr b"
    by (cases "verify X self public (geoc_signature g) (guid_address (geoc_guid g))")
       (simp_all add: receive_object_def Let_def then_run_call_run)
  then have b by (rule verify_returns_True)
  with v show "verify X self public (geoc_signature g) (guid_address (geoc_guid g)) = Inr True"
    by simp
  from r v obtain p where d: "decrypt X (fp_class self) secret (geoc_payload g) = Inr p"
    by (cases "decrypt X (fp_class self) secret (geoc_payload g)")
       (simp_all add: receive_object_def Let_def then_run_call_run)
  from r v d show "gd = geoc_guid g"
    by (simp add: receive_object_def Let_def then_run_call_run return_run_def)
  from r v d show "decrypt X (fp_class self) secret (geoc_payload g) = Inr pt"
    by (simp add: receive_object_def Let_def then_run_call_run return_run_def)
  from v d show "fst (receive_object X self public secret (PGEOC g)) = [Call_verify, Call_decrypt]"
    by (simp add: receive_object_def Let_def then_run_call_run return_run_def)
next
  assume a: "fp_class self = CS1 \<and> tp_class t = CS1 \<and> length (guid_address (geoc_guid g)) = 64
        \<and> \<not> PSS_verify X (tp_signature_key t) (guid_address (geoc_guid g)) (geoc_signature g)"
  then have "verify X self (PThirdPerson t) (geoc_signature g) (guid_address (geoc_guid g))
               = Inl SecurityError"
    by (intro cs1_verify_rejects) simp_all
  then show "receive_object X self (PThirdPerson t) secret (PGEOC g)
               = ([Call_verify], Inl SecurityError)"
    by (simp add: receive_object_def Let_def then_run_call_run)
next
  assume a: "fp_class self = CS1 \<and> tp_class t = CS1 \<and> length (guid_address (geoc_guid g)) = 64
        \<and> PSS_verify X (tp_signature_key t) (guid_address (geoc_guid g)) (geoc_signature g)"
  then have "verify X self (PThirdPerson t) (geoc_signature g) (guid_address (geoc_guid g))
               = Inr True"
    by (intro cs1_verify_accepts) simp_all
  then have "receive_object X self (PThirdPerson t) secret (PGEOC g)
               = ([Call_verify, Call_decrypt],
                  case decrypt X (fp_class self) secret (geoc_payload g) of
                    Inl e \<Rightarrow> Inl e
                  | Inr pt \<Rightarrow> Inr (geoc_guid g, pt))"
    by (rule receive_object_after_verify)
  with a show "receive_object X self (PThirdPerson t) secret (PGEOC g)
               = ([Call_verify, Call_decrypt],
                  case decrypt X CS1 secret (geoc_payload g) of
                    Inl e \<Rightarrow> Inl e
                  | Inr pt \<Rightarrow> Inr (geoc_guid g, pt))"
    by simp
next
  assume "\<forall>g'. obj \<noteq> PGEOC g'"
  then show "receive_object X self public secret obj = ([], Inl TypeError)"
    by (cases obj) (simp_all add: receive_object_def raise_run_def)
qed

theorem receive_object_verifies_then_decrypts_witness:
  "receive_object toy bob (PThirdPerson alice_public) (PSecret secret1) (PGEOC tampered_geoc)
     = ([Call_verify], Inl SecurityError)
   \<and> receive_object toy bob (PThirdPerson alice_public) (PSecret secret1) (PGEOC hello_geoc)
     = ([Call_verify, Call_decrypt], Inr (toy_addr 151, bytes_of ''hello''))
   \<and> receive_object toy bob (PThirdPerson alice_public) PNone (PGEOC hello_geoc)
     = ([Call_verify, Call_decrypt], Inl AttributeError)
   \<and> receive_object toy bob (PThirdPerson alice_public) (PSecret secret1) (PBytes [1])
     = ([], Inl TypeError)"
proof (intro conjI)
  have "fp_class bob = CS1 \<and> tp_class alice_public = CS1
        \<and> length (guid_address (geoc_guid tampered_geoc)) = 64
        \<and> \<not> PSS_verify toy (tp_signature_key alice_public)
              (guid_address (geoc_guid tampered_geoc)) (geoc_signature tampered_geoc)"
    by (simp add: bob_def alice_public_def tampered_geoc_def hello_geoc_def toy_addr_def
        toy_PSS_verify key_tag_def)
  with receive_object_verifies_then_decrypts
         [where X = toy and self = bob and g = tampered_geoc and t = alice_public
            and secret = "PSecret secret1"]
  show "receive_object toy bob (PThirdPerson alice_public) (PSecret secret1) (PGEOC tampered_geoc)
          = ([Call_verify], Inl SecurityError)"
    by blast
next
  have a: "fp_class bob = CS1 \<and> tp_class alice_public = CS1
        \<and> length (guid_address (geoc_guid hello_geoc)) = 64
        \<and> PSS_verify toy (tp_signature_key alice_public)
              (guid_address (geoc_guid hello_geoc)) (geoc_signature hello_geoc)"
    by (simp add: bob_def alice_public_def hello_geoc_def toy_addr_def
        toy_PSS_verify key_tag_def)
  have d: "decrypt toy CS1 (PSecret secret1) (geoc_payload hello_geoc)
             = Inr (bytes_of ''hello'')"
    by (simp add: hello_geoc_def toy_cs1_decrypt_hello)
  have g: "geoc_guid hello_geoc = toy_addr 151"
    by (simp add: hello_geoc_def)
  from a receive_object_verifies_then_decrypts
         [where X = toy and self = bob and g = hello_geoc and t = alice_public
            and secret = "PSecret secret1"]
  have "receive_object toy bob (PThirdPerson alice_public) (PSecret secret1) (PGEOC hello_geoc)
          = ([Call_verify, Call_decrypt],
             case decrypt toy CS1 (PSecret secret1) (geoc_payload hello_geoc) of
               Inl e \<Rightarrow> Inl e
             | Inr pt \<Rightarrow> Inr (geoc_guid hello_geoc, pt))"
    by blast
  then show "receive_object toy bob (PThirdPerson alice_public) (PSecret secret1) (PGEOC hello_geoc)
          = ([Call_verify, Call_decrypt], Inr (toy_addr 151, bytes_of ''hello''))"
    by (simp only: d g sum.case)
  have d': "decrypt toy CS1 PNone (geoc_payload hello_geoc) = Inl AttributeError"
    by (simp add: cs1_decrypt_def)
  from a receive_object_verifies_then_decrypts
         [where X = toy and self = bob and g = hello_geoc and t = alice_public
            and secret = PNone]
  have "receive_object toy bob (PThirdPerson alice_public) PNone (PGEOC hello_geoc)
          = ([Call_verify, Call_decrypt],
             case decrypt toy CS1 PNone (geoc_payload hello_geoc) of
               Inl e \<Rightarrow> Inl e
             | Inr pt \<Rightarrow> Inr (geoc_guid hello_geoc, pt))"
    by blast
  then show "receive_object toy bob (PThirdPerson alice_public) PNone (PGEOC hello_geoc)
          = ([Call_verify, Call_decrypt], Inl AttributeError)"
    by (simp only: d' sum.case)
  from receive_object_verifies_then_decrypts
         [where X = toy and self = bob and obj = "PBytes [1]"
            and public = "PThirdPerson alice_public" and secret = "PSecret secret1"]
  show "receive_object toy bob (PThirdPerson alice_public) (PSecret secret1) (PBytes [1])
          = ([], Inl TypeError)"
    by simp
qed

text \<open>
  C8. \<^verbatim>\<open>make_object\<close> accepts a secret exactly when it is a Secret whose cipher is
  the identity's own ciphersuite id. For any other argument it raises \<^verbatim>\<open>TypeError\<close>
  having called no method of the ciphersuite. For a matching secret it encrypts the
  plaintext, packs a GEOC of the payload, signs the address of the packed object and
  attaches the signature; when these four steps return, the result is the guid and the
  packed bytes of the object that carries the signature, and the calls were
  \<^verbatim>\<open>_encrypt\<close>, then \<^verbatim>\<open>_sign\<close>.
\<close>

theorem make_object_typechecks_first:
  "(typecheck_secret (fp_class self) secret
      = (\<exists>s. secret = PSecret s \<and> secret_cipher s = ciphersuite (fp_class self)))
   \<and> (\<not> typecheck_secret (fp_class self) secret
        \<longrightarrow> make_object X self secret plaintext = ([], Inl TypeError))
   \<and> (typecheck_secret (fp_class self) secret
        \<and> encrypt X (fp_class self) secret plaintext = Inr payload
        \<and> GEOC_pack X (fp_author_guid self) payload (ciphersuite (fp_class self))
              (fp_address_algo self) = Inr g1
        \<and> sign X self (guid_address (geoc_guid g1)) = Inr sg
        \<and> GEOC_pack_signature X g1 sg = Inr g2
        \<longrightarrow> make_object X self secret plaintext
              = ([Call_encrypt, Call_sign], Inr (geoc_guid g2, geoc_packed g2)))"
proof (intro conjI impI)
  show "typecheck_secret (fp_class self) secret
      = (\<exists>s. secret = PSecret s \<and> secret_cipher s = ciphersuite (fp_class self))"
    by (rule typecheck_secret_iff)
next
  assume "\<not> typecheck_secret (fp_class self) secret"
  then show "make_object X self secret plaintext = ([], Inl TypeError)"
    by (simp add: make_object_def raise_run_def)
next
  assume "typecheck_secret (fp_class self) secret
        \<and> encrypt X (fp_class self) secret plaintext = Inr payload
        \<and> GEOC_pack X (fp_author_guid self) payload (ciphersuite (fp_class self))
              (fp_address_algo self) = Inr g1
        \<and> sign X self (guid_address (geoc_guid g1)) = Inr sg
        \<and> GEOC_pack_signature X g1 sg = Inr g2"
  then show "make_object X self secret plaintext
              = ([Call_encrypt, Call_sign], Inr (geoc_guid g2, geoc_packed g2))"
    by (simp add: make_object_def then_run_call_run then_run_step_run return_run_def)
qed

theorem make_object_typechecks_first_witness:
  "make_object toy alice (PSecret secret0) (bytes_of ''hello'') = ([], Inl TypeError)
   \<and> make_object toy alice (PBytes [1]) (bytes_of ''hello'') = ([], Inl TypeError)
   \<and> make_object toy alice (PSecret secret1) (bytes_of ''hello'')
       = ([Call_encrypt, Call_sign], Inr (geoc_guid hello_geoc, geoc_packed hello_geoc))"
proof (intro conjI)
  have "\<not> typecheck_secret (fp_class alice) (PSecret secret0)"
    by (simp add: typecheck_secret_def alice_def secret0_def)
  with make_object_typechecks_first [where self = alice and secret = "PSecret secret0"]
  show "make_object toy alice (PSecret secret0) (bytes_of ''hello'') = ([], Inl TypeError)"
    by blast
next
  have "\<not> typecheck_secret (fp_class alice) (PBytes [1])"
    by (simp add: typecheck_secret_def)
  with make_object_typechecks_first [where self = alice and secret = "PBytes [1]"]
  show "make_object toy alice (PBytes [1]) (bytes_of ''hello'') = ([], Inl TypeError)"
    by blast
next
  have t: "typecheck_secret (fp_class alice) (PSecret secret1)"
    by (simp add: typecheck_secret_def alice_def secret1_def)
  have e: "encrypt toy (fp_class alice) (PSecret secret1) (bytes_of ''hello'')
             = Inr [151, 154, 147, 147, 144]"
    by (simp add: alice_def toy_cs1_encrypt_hello)
  have p: "GEOC_pack toy (fp_author_guid alice) [151, 154, 147, 147, 144]
             (ciphersuite (fp_class alice)) (fp_address_algo alice)
           = Inr (hello_geoc\<lparr>geoc_packed := [151, 154, 147, 147, 144], geoc_signature := []\<rparr>)"
    by (simp add: toy_def alice_def hello_geoc_def first_byte_def)
  have s: "sign toy alice (guid_address (geoc_guid
             (hello_geoc\<lparr>geoc_packed := [151, 154, 147, 147, 144], geoc_signature := []\<rparr>)))
           = Inr (replicate 64 151 @ [187])"
    by (simp add: sign_def cs1_sign_def FrozenSHA512_def bind_err_def alice_def hello_geoc_def
        toy_addr_def toy_PSS_sign key_tag_def)
  have q: "GEOC_pack_signature toy
             (hello_geoc\<lparr>geoc_packed := [151, 154, 147, 147, 144], geoc_signature := []\<rparr>)
             (replicate 64 151 @ [187]) = Inr hello_geoc"
    by (simp add: toy_def hello_geoc_def)
  from t e p s q
    make_object_typechecks_first [where X = toy and self = alice and secret = "PSecret secret1"
      and plaintext = "bytes_of ''hello''" and payload = "[151, 154, 147, 147, 144]"
      and ?g1.0 = "hello_geoc\<lparr>geoc_packed := [151, 154, 147, 147, 144], geoc_signature := []\<rparr>"
      and sg = "replicate 64 151 @ [187]" and ?g2.0 = hello_geoc]
  show "make_object toy alice (PSecret secret1) (bytes_of ''hello'')
       = ([Call_encrypt, Call_sign], Inr (geoc_guid hello_geoc, geoc_packed hello_geoc))"
    by blast
qed

section \<open>Requests: the claims\<close>

text \<open>
  C2. Once the GARQ is unpacked and its payload decrypted, \<^verbatim>\<open>unpack_request\<close> returns
  what the ordered cascade of the specification returns on the candidates Handshake, Ack,
  Nak, in this order: the first record that parses, with its author and with the envelope
  that caches it; a \<^verbatim>\<open>ParseError\<close> of a candidate advances to the next one, any
  other exception of a candidate is raised unchanged, and when all three candidates raise
  \<^verbatim>\<open>ParseError\<close> the call raises \<^verbatim>\<open>SecurityError\<close>.
\<close>

theorem unpack_request_cascade:
  "GARQ_unpack X packed = Inr garq \<and> decrypt_asym X self (garq_payload garq) = Inr pt
   \<longrightarrow> unpack_request X self packed =
        ([Call_decrypt_asym],
         case first_parse [as_handshake X, as_ack X, as_nak X] pt of
           Inl e \<Rightarrow> Inl e
         | Inr request \<Rightarrow> Inr (asym_author request, garq\<lparr>garq_plaintext := Some request\<rparr>))"
proof
  assume "GARQ_unpack X packed = Inr garq \<and> decrypt_asym X self (garq_payload garq) = Inr pt"
  then show "unpack_request X self packed =
        ([Call_decrypt_asym],
         case first_parse [as_handshake X, as_ack X, as_nak X] pt of
           Inl e \<Rightarrow> Inl e
         | Inr request \<Rightarrow> Inr (asym_author request, garq\<lparr>garq_plaintext := Some request\<rparr>))"
    unfolding first_parse_candidates
    by (simp add: unpack_request_def then_run_step_run then_run_call_run return_run_def
        split: sum.splits)
qed

theorem unpack_request_cascade_witness:
  "unpack_request toy bob [2, 6, 8, 2] = ([Call_decrypt_asym], Inr (toy_addr 1, ack_request))
   \<and> unpack_request toy bob [9] = ([Call_decrypt_asym], Inl SecurityError)
   \<and> unpack_request toy bob [4] = ([Call_decrypt_asym], Inl ValueError)"
proof (intro conjI)
  have h: "GARQ_unpack toy [2, 6, 8, 2] = Inr (ack_request\<lparr>garq_plaintext := None\<rparr>)
        \<and> decrypt_asym toy bob (garq_payload (ack_request\<lparr>garq_plaintext := None\<rparr>)) = Inr [2]"
    by (simp add: toy_def ack_request_def first_byte_def decrypt_asym_def cs1_decrypt_asym_def
        bob_def)
  have "unpack_request toy bob [2, 6, 8, 2] =
        ([Call_decrypt_asym],
         case first_parse [as_handshake toy, as_ack toy, as_nak toy] [2] of
           Inl e \<Rightarrow> Inl e
         | Inr request \<Rightarrow>
             Inr (asym_author request,
                  ack_request\<lparr>garq_plaintext := None\<rparr>\<lparr>garq_plaintext := Some request\<rparr>))"
    by (rule mp [OF unpack_request_cascade h])
  then show "unpack_request toy bob [2, 6, 8, 2]
               = ([Call_decrypt_asym], Inr (toy_addr 1, ack_request))"
    by (simp del: first_parse.simps add: toy_first_parse ack_request_def)
next
  have h: "GARQ_unpack toy [9] = Inr \<lparr>garq_recipient = toy_addr 5, garq_payload = [9],
             garq_guid = toy_addr 9, garq_packed = [9],
             garq_signature = [], garq_plaintext = None\<rparr>
        \<and> decrypt_asym toy bob (garq_payload \<lparr>garq_recipient = toy_addr 5, garq_payload = [9],
             garq_guid = toy_addr 9, garq_packed = [9],
             garq_signature = [], garq_plaintext = None\<rparr>) = Inr [9]"
    by (simp add: toy_def first_byte_def decrypt_asym_def cs1_decrypt_asym_def bob_def)
  have "unpack_request toy bob [9] =
        ([Call_decrypt_asym],
         case first_parse [as_handshake toy, as_ack toy, as_nak toy] [9] of
           Inl e \<Rightarrow> Inl e
         | Inr request \<Rightarrow>
             Inr (asym_author request, \<lparr>garq_recipient = toy_addr 5, garq_payload = [9],
             garq_guid = toy_addr 9, garq_packed = [9],
             garq_signature = [], garq_plaintext = None\<rparr>\<lparr>garq_plaintext := Some request\<rparr>))"
    by (rule mp [OF unpack_request_cascade h])
  then show "unpack_request toy bob [9] = ([Call_decrypt_asym], Inl SecurityError)"
    by (simp del: first_parse.simps add: toy_first_parse)
next
  have h: "GARQ_unpack toy [4] = Inr \<lparr>garq_recipient = toy_addr 5, garq_payload = [4],
             garq_guid = toy_addr 4, garq_packed = [4],
             garq_signature = [], garq_plaintext = None\<rparr>
        \<and> decrypt_asym toy bob (garq_payload \<lparr>garq_recipient = toy_addr 5, garq_payload = [4],
             garq_guid = toy_addr 4, garq_packed = [4],
             garq_signature = [], garq_plaintext = None\<rparr>) = Inr [4]"
    by (simp add: toy_def first_byte_def decrypt_asym_def cs1_decrypt_asym_def bob_def)
  have "unpack_request toy bob [4] =
        ([Call_decrypt_asym],
         case first_parse [as_handshake toy, as_ack toy, as_nak toy] [4] of
           Inl e \<Rightarrow> Inl e
         | Inr request \<Rightarrow>
             Inr (asym_author request, \<lparr>garq_recipient = toy_addr 5, garq_payload = [4],
             garq_guid = toy_addr 4, garq_packed = [4],
             garq_signature = [], garq_plaintext = None\<rparr>\<lparr>garq_plaintext := Some request\<rparr>))"
    by (rule mp [OF unpack_request_cascade h])
  then show "unpack_request toy bob [4] = ([Call_decrypt_asym], Inl ValueError)"
    by (simp del: first_parse.simps add: toy_first_parse)
qed

text \<open>
  C3. \<^verbatim>\<open>receive_request\<close> succeeds at most once per envelope. A call that returns
  the plaintext was given an unpacked GARQ that cached this plaintext, and leaves the
  envelope without the cache; every later call on the envelope, by whichever identity and
  for whichever sender, raises \<^verbatim>\<open>TypeError\<close> (not \<^verbatim>\<open>SecurityError\<close>), calls no
  method of the ciphersuite and leaves the envelope as it is.
\<close>

theorem receive_request_succeeds_once:
  "snd (fst (receive_request X self public request)) = Inr pt
   \<longrightarrow> (\<exists>r. request = PGARQ r \<and> garq_plaintext r = Some pt
            \<and> snd (receive_request X self public request) = PGARQ (r\<lparr>garq_plaintext := None\<rparr>))
       \<and> (\<forall>self2 public2.
             receive_request X self2 public2 (snd (receive_request X self public request))
               = (([], Inl TypeError), snd (receive_request X self public request)))"
proof
  assume ok: "snd (fst (receive_request X self public request)) = Inr pt"
  then obtain r where req: "request = PGARQ r"
    by (cases request)
       (auto simp: receive_request_def raise_run_def split: sum.splits)
  from ok req have cached: "garq_plaintext r = Some pt"
    by (auto simp: receive_request_def raise_run_def split: sum.splits option.splits prod.splits)
  from ok req cached
  have left: "snd (receive_request X self public request) = PGARQ (r\<lparr>garq_plaintext := None\<rparr>)"
    by (auto simp: receive_request_def raise_run_def split: sum.splits prod.splits)
  have again: "receive_request X self2 public2 (PGARQ (r\<lparr>garq_plaintext := None\<rparr>))
                 = (([], Inl TypeError), PGARQ (r\<lparr>garq_plaintext := None\<rparr>))"
    for self2 public2
    by (auto simp: receive_request_def raise_run_def typecheck_thirdparty_def
        split: sum.splits pyobj.splits)
  from req cached left again
  show "(\<exists>r. request = PGARQ r \<and> garq_plaintext r = Some pt
            \<and> snd (receive_request X self public request) = PGARQ (r\<lparr>garq_plaintext := None\<rparr>))
       \<and> (\<forall>self2 public2.
             receive_request X self2 public2 (snd (receive_request X self public request))
               = (([], Inl TypeError), snd (receive_request X self public request)))"
    by simp
qed

theorem receive_request_succeeds_once_witness:
  "receive_request toy bob (PThirdPerson alice_public) (PGARQ ack_request)
     = (([Call_derive_shared, Call_verify_mac], Inr (AsymAck (toy_addr 1) (toy_addr 10) 0)),
        PGARQ (ack_request\<lparr>garq_plaintext := None\<rparr>))
   \<and> receive_request toy bob (PThirdPerson alice_public)
        (PGARQ (ack_request\<lparr>garq_plaintext := None\<rparr>))
     = (([], Inl TypeError), PGARQ (ack_request\<lparr>garq_plaintext := None\<rparr>))"
proof
  show first: "receive_request toy bob (PThirdPerson alice_public) (PGARQ ack_request)
     = (([Call_derive_shared, Call_verify_mac], Inr (AsymAck (toy_addr 1) (toy_addr 10) 0)),
        PGARQ (ack_request\<lparr>garq_plaintext := None\<rparr>))"
    by (rule toy_receive_ack_request)
  then have "snd (fst (receive_request toy bob (PThirdPerson alice_public) (PGARQ ack_request)))
               = Inr (AsymAck (toy_addr 1) (toy_addr 10) 0)"
    by simp
  with receive_request_succeeds_once [where X = toy and self = bob
         and public = "PThirdPerson alice_public" and request = "PGARQ ack_request"
         and pt = "AsymAck (toy_addr 1) (toy_addr 10) 0"]
  have "receive_request toy bob (PThirdPerson alice_public)
          (snd (receive_request toy bob (PThirdPerson alice_public) (PGARQ ack_request)))
        = (([], Inl TypeError),
           snd (receive_request toy bob (PThirdPerson alice_public) (PGARQ ack_request)))"
    by blast
  with first show "receive_request toy bob (PThirdPerson alice_public)
        (PGARQ (ack_request\<lparr>garq_plaintext := None\<rparr>))
     = (([], Inl TypeError), PGARQ (ack_request\<lparr>garq_plaintext := None\<rparr>))"
    by simp
qed

text \<open>
  C9. When \<^verbatim>\<open>_verify_mac\<close> raises \<^verbatim>\<open>SecurityError\<close> inside
  \<^verbatim>\<open>receive_request\<close>, the call raises it and leaves the envelope as it was, the
  cached plaintext included: any later call on the envelope behaves as it would have on
  the envelope before the failed call, so one with the right sender can still succeed.
  More generally, a call of \<^verbatim>\<open>receive_request\<close> that raises leaves the request as
  it was.
\<close>

theorem receive_request_failure_keeps_envelope:
  "(typecheck_thirdparty (fp_class self) public = Inr True \<and> garq_plaintext r = Some pt
      \<and> derive_shared X self public = Inr k
      \<and> verify_mac X (fp_class self) k (garq_signature r) (guid_address (garq_guid r))
            = Inl SecurityError
    \<longrightarrow> receive_request X self public (PGARQ r)
          = (([Call_derive_shared, Call_verify_mac], Inl SecurityError), PGARQ r)
        \<and> (\<forall>self2 public2.
              receive_request X self2 public2 (snd (receive_request X self public (PGARQ r)))
                = receive_request X self2 public2 (PGARQ r)))
   \<and> (snd (fst (receive_request X self public request)) = Inl e
        \<longrightarrow> snd (receive_request X self public request) = request)"
proof (intro conjI impI)
  assume a: "typecheck_thirdparty (fp_class self) public = Inr True \<and> garq_plaintext r = Some pt
      \<and> derive_shared X self public = Inr k
      \<and> verify_mac X (fp_class self) k (garq_signature r) (guid_address (garq_guid r))
            = Inl SecurityError"
  then show first: "receive_request X self public (PGARQ r)
          = (([Call_derive_shared, Call_verify_mac], Inl SecurityError), PGARQ r)"
    by (simp add: receive_request_def then_run_def call_run_def)
  show "\<forall>self2 public2.
              receive_request X self2 public2 (snd (receive_request X self public (PGARQ r)))
                = receive_request X self2 public2 (PGARQ r)"
    unfolding first by simp
next
  assume "snd (fst (receive_request X self public request)) = Inl e"
  then show "snd (receive_request X self public request) = request"
    by (auto simp: receive_request_def raise_run_def
        split: sum.splits pyobj.splits option.splits prod.splits)
qed

theorem receive_request_failure_keeps_envelope_witness:
  "receive_request toy bob (PThirdPerson eve_public) (PGARQ ack_request)
     = (([Call_derive_shared, Call_verify_mac], Inl SecurityError), PGARQ ack_request)
   \<and> receive_request toy bob (PThirdPerson alice_public)
        (snd (receive_request toy bob (PThirdPerson eve_public) (PGARQ ack_request)))
     = (([Call_derive_shared, Call_verify_mac], Inr (AsymAck (toy_addr 1) (toy_addr 10) 0)),
        PGARQ (ack_request\<lparr>garq_plaintext := None\<rparr>))"
proof -
  have h: "typecheck_thirdparty (fp_class bob) (PThirdPerson eve_public) = Inr True
      \<and> garq_plaintext ack_request = Some (AsymAck (toy_addr 1) (toy_addr 10) 0)
      \<and> derive_shared toy bob (PThirdPerson eve_public) = Inr (14 # 15 # 16 # replicate 61 12)
      \<and> verify_mac toy (fp_class bob) (14 # 15 # 16 # replicate 61 12)
            (garq_signature ack_request) (guid_address (garq_guid ack_request))
            = Inl SecurityError"
    by (simp add: toy_typecheck_eve toy_derive_shared_bob_eve toy_verify_mac_eve)
       (simp add: ack_request_def)
  have c: "receive_request toy bob (PThirdPerson eve_public) (PGARQ ack_request)
          = (([Call_derive_shared, Call_verify_mac], Inl SecurityError), PGARQ ack_request)
        \<and> (\<forall>self2 public2.
              receive_request toy self2 public2
                (snd (receive_request toy bob (PThirdPerson eve_public) (PGARQ ack_request)))
                = receive_request toy self2 public2 (PGARQ ack_request))"
    by (rule mp [OF conjunct1 [OF receive_request_failure_keeps_envelope] h])
  then have "receive_request toy bob (PThirdPerson alice_public)
                (snd (receive_request toy bob (PThirdPerson eve_public) (PGARQ ack_request)))
             = receive_request toy bob (PThirdPerson alice_public) (PGARQ ack_request)"
    by blast
  with c show ?thesis by (simp only: toy_receive_ack_request simp_thms)
qed

section \<open>Identities: the claims\<close>

text \<open>
  C4. Shared-secret derivation is symmetric. Let \<open>A\<close> and \<open>B\<close> be first-person
  identities of the same suite, each with its third-person identity (\<open>TA\<close>, \<open>TB\<close>): the
  same class and author guid, and in suite 1 the public half of the exchange key. The
  salt, the bytewise XOR of the two address digests, is the same on both sides for any two
  addresses. Given that the X25519 primitive commutes (the exchange of \<open>a\<close> with the
  public key of \<open>b\<close> is the exchange of \<open>b\<close> with the public key of \<open>a\<close>), both
  derivations return, and return the same key.
\<close>

theorem derive_shared_symmetric:
  "(map2 (XOR) (guid_address (fp_author_guid A)) (guid_address (fp_author_guid B))
      = map2 (XOR) (guid_address (fp_author_guid B)) (guid_address (fp_author_guid A)))
   \<and> (fp_class A = fp_class B
        \<and> tp_class TA = fp_class A \<and> tp_class TB = fp_class B
        \<and> tp_author_guid TA = fp_author_guid A \<and> tp_author_guid TB = fp_author_guid B
        \<and> (fp_class A = CS1 \<longrightarrow>
               get_public X (fp_exchange_key A) = Inr (tp_exchange_key TA)
               \<and> get_public X (fp_exchange_key B) = Inr (tp_exchange_key TB))
        \<and> (\<forall>a b. X25519 X a (X25519_base X b) = X25519 X b (X25519_base X a))
      \<longrightarrow> derive_shared X A (PThirdPerson TB) = derive_shared X B (PThirdPerson TA)
          \<and> (\<exists>k. derive_shared X A (PThirdPerson TB) = Inr k))"
proof (intro conjI impI)
  show "map2 (XOR) (guid_address (fp_author_guid A)) (guid_address (fp_author_guid B))
      = map2 (XOR) (guid_address (fp_author_guid B)) (guid_address (fp_author_guid A))"
    by (rule map2_xor_commute)
next
  assume h: "fp_class A = fp_class B
        \<and> tp_class TA = fp_class A \<and> tp_class TB = fp_class B
        \<and> tp_author_guid TA = fp_author_guid A \<and> tp_author_guid TB = fp_author_guid B
        \<and> (fp_class A = CS1 \<longrightarrow>
               get_public X (fp_exchange_key A) = Inr (tp_exchange_key TA)
               \<and> get_public X (fp_exchange_key B) = Inr (tp_exchange_key TB))
        \<and> (\<forall>a b. X25519 X a (X25519_base X b) = X25519 X b (X25519_base X a))"
  have both: "derive_shared X A (PThirdPerson TB) = derive_shared X B (PThirdPerson TA)
              \<and> (\<exists>k. derive_shared X A (PThirdPerson TB) = Inr k)"
  proof (cases "fp_class A")
    case CS0
    with h show ?thesis
      by (simp add: derive_shared_def cs0_derive_shared_def typecheck_thirdparty_def bind_err_def)
  next
    case CS1
    with h have "get_public X (fp_exchange_key A) = Inr (tp_exchange_key TA)"
      and "get_public X (fp_exchange_key B) = Inr (tp_exchange_key TB)"
      by simp_all
    then obtain a b where
      ka: "fp_exchange_key A = ECDHPrivate a" "tp_exchange_key TA = ECDHPublic (X25519_base X a)"
      and kb: "fp_exchange_key B = ECDHPrivate b" "tp_exchange_key TB = ECDHPublic (X25519_base X b)"
      by (blast dest: get_public_Inr)
    from h have dh: "X25519 X a (X25519_base X b) = X25519 X b (X25519_base X a)"
      by blast
    from h CS1 ka kb dh show ?thesis
      by (simp add: derive_shared_def cs1_derive_shared_def do_exchange_def bind_err_def Let_def
          map2_xor_commute [of "guid_address (fp_author_guid A)"])
  qed
  from both show "derive_shared X A (PThirdPerson TB) = derive_shared X B (PThirdPerson TA)"
    by (rule conjunct1)
  from both show "\<exists>k. derive_shared X A (PThirdPerson TB) = Inr k"
    by (rule conjunct2)
qed

theorem derive_shared_symmetric_witness:
  "derive_shared toy alice (PThirdPerson bob_public) = Inr (6 # 8 # 10 # replicate 61 4)
   \<and> derive_shared toy bob (PThirdPerson alice_public) = Inr (6 # 8 # 10 # replicate 61 4)"
proof -
  have "fp_class bob = fp_class alice
        \<and> tp_class bob_public = fp_class bob \<and> tp_class alice_public = fp_class alice
        \<and> tp_author_guid bob_public = fp_author_guid bob
        \<and> tp_author_guid alice_public = fp_author_guid alice
        \<and> (fp_class bob = CS1 \<longrightarrow>
               get_public toy (fp_exchange_key bob) = Inr (tp_exchange_key bob_public)
               \<and> get_public toy (fp_exchange_key alice) = Inr (tp_exchange_key alice_public))
        \<and> (\<forall>a b. X25519 toy a (X25519_base toy b) = X25519 toy b (X25519_base toy a))"
    by (simp add: alice_def bob_def alice_public_def bob_public_def get_public_def toy_def
        map2_plus_commute)
  with derive_shared_symmetric [where X = toy and A = bob and B = alice
         and TA = bob_public and TB = alice_public]
  have "derive_shared toy bob (PThirdPerson alice_public)
          = derive_shared toy alice (PThirdPerson bob_public)"
    by blast
  then show ?thesis by (simp only: toy_derive_shared_bob_alice simp_thms)
qed

text \<open>
  C6, as the code has it. A first-person identity that is generated (constructed with
  neither keys nor author guid) owns a third-person identity, readable through
  \<^verbatim>\<open>third_party\<close>, of the same class, so of the same cipher id, and with the same
  author guid; the pairing is set in the constructor. An identity loaded from existing
  keys and an author guid is built without one: the loading branch of the constructor
  assigns no \<^verbatim>\<open>_third_party\<close>, and reading \<^verbatim>\<open>third_party\<close> raises
  \<^verbatim>\<open>AttributeError\<close>.
\<close>

theorem generated_identity_owns_third_party:
  "(FirstPersonBase_init X c fresh None None address_algo = Inr self
      \<longrightarrow> (\<exists>tp. third_party self = Inr tp
                \<and> tp_author_guid tp = fp_author_guid self
                \<and> tp_class tp = fp_class self
                \<and> ciphersuite (tp_class tp) = ciphersuite (fp_class self)
                \<and> fp_class self = c))
   \<and> (FirstPersonBase_init X c fresh (Some keys) (Some g) address_algo = Inr self'
      \<longrightarrow> third_party self' = Inl AttributeError \<and> fp_author_guid self' = g
          \<and> fp_class self' = c)"
proof (rule conjI; rule impI)
  assume a: "FirstPersonBase_init X c fresh None None address_algo = Inr self"
  then obtain algo tp r where
    t: "generate_third_person X c (generate_keys X c fresh) algo = Inr tp"
    and i: "IdentityBase_init (Some (generate_keys X c fresh)) (tp_author_guid tp) = Inr r"
    and s: "(case r of (g, s, e, x) \<Rightarrow>
               Inr \<lparr>fp_class = c, fp_address_algo = algo, fp_third_party = Some tp,
                    fp_author_guid = g, fp_signature_key = s, fp_encryption_key = e,
                    fp_exchange_key = x\<rparr>) = (Inr self :: error + first_person)"
    by (auto simp: FirstPersonBase_init_def bind_err_def Let_def split: sum.splits)
  from IdentityBase_init_Inr [OF i] s
  have "fp_third_party self = Some tp \<and> fp_author_guid self = tp_author_guid tp
        \<and> fp_class self = c"
    by auto
  moreover from t have "tp_class tp = c"
    by (rule generate_third_person_Inr)
  ultimately
  show "\<exists>tp. third_party self = Inr tp
                \<and> tp_author_guid tp = fp_author_guid self
                \<and> tp_class tp = fp_class self
                \<and> ciphersuite (tp_class tp) = ciphersuite (fp_class self)
                \<and> fp_class self = c"
    by (simp add: third_party_def)
next
  assume a: "FirstPersonBase_init X c fresh (Some keys) (Some g) address_algo = Inr self'"
  then obtain algo r where
    i: "IdentityBase_init (Some keys) g = Inr r"
    and s: "(case r of (g, s, e, x) \<Rightarrow>
               Inr \<lparr>fp_class = c, fp_address_algo = algo, fp_third_party = None,
                    fp_author_guid = g, fp_signature_key = s, fp_encryption_key = e,
                    fp_exchange_key = x\<rparr>) = (Inr self' :: error + first_person)"
    by (auto simp: FirstPersonBase_init_def bind_err_def split: sum.splits)
  from IdentityBase_init_Inr [OF i] s
  show "third_party self' = Inl AttributeError \<and> fp_author_guid self' = g \<and> fp_class self' = c"
    by (auto simp: third_party_def)
qed

theorem generated_identity_owns_third_party_witness:
  "FirstPersonBase_init toy CS0 (RawKey [], RawKey [], RawKey []) None None Default
     = Inr generated0
   \<and> third_party generated0 = Inr generated0_public
   \<and> tp_author_guid generated0_public = fp_author_guid generated0
   \<and> tp_class generated0_public = fp_class generated0"
proof -
  have g: "FirstPersonBase_init toy CS0 (RawKey [], RawKey [], RawKey []) None None Default
             = Inr generated0"
    by (rule toy_generate0)
  from mp [OF conjunct1 [OF generated_identity_owns_third_party] g]
  obtain tp where "third_party generated0 = Inr tp"
    and "tp_author_guid tp = fp_author_guid generated0"
    and "tp_class tp = fp_class generated0"
    by blast
  moreover have "third_party generated0 = Inr generated0_public"
    by (simp add: third_party_def generated0_def)
  ultimately show ?thesis using g by simp
qed

text \<open>
  C6 as stated fails for a loaded identity: \<^verbatim>\<open>FirstPersonIdentity0(keys=...,
  author_guid=...)\<close> with a complete key bundle is constructed, and reading its
  \<^verbatim>\<open>third_party\<close> raises \<^verbatim>\<open>AttributeError\<close>.
\<close>

theorem loaded_identity_counterexample:
  "FirstPersonBase_init toy CS0 (RawKey [], RawKey [], RawKey []) (Some dummy_keys)
       (Some (toy_addr 1)) Default = Inr loaded0
   \<and> third_party loaded0 = Inl AttributeError"
  by (simp add: toy_load0 third_party_def loaded0_def)

text \<open>
  C7 holds on three of the four ways to build an identity from a key bundle, and fails on
  \<^verbatim>\<open>ThirdPersonIdentity0.from_keys\<close>. A bundle that lacks a role makes
  \<^verbatim>\<open>_IdentityBase.__init__\<close> (so a loaded first-person identity) raise
  \<^verbatim>\<open>RuntimeError\<close>, and so does \<^verbatim>\<open>ThirdPersonIdentity1.from_keys\<close> when the
  roles it reads before the missing one hold RSA keys of at most 4096 bits. In
  \<^verbatim>\<open>ThirdPersonIdentity0.from_keys\<close> the \<^verbatim>\<open>try\<close> encloses only
  \<^verbatim>\<open>_pack_keys\<close>, which for this class returns the bundle unread; the missing role
  is met when the GIDC is built, outside the \<^verbatim>\<open>try\<close>, and the \<^verbatim>\<open>KeyError\<close>
  escapes.
\<close>

theorem from_keys_missing_role:
  "(d ''signature'' = None \<or> d ''encryption'' = None \<or> d ''exchange'' = None
    \<longrightarrow> from_keys X CS0 (Some d) a = Inl KeyError
        \<and> IdentityBase_init (Some d) g = Inl RuntimeError
        \<and> FirstPersonBase_init X c fresh (Some d) (Some g) Default = Inl RuntimeError)
   \<and> (d ''signature'' = None
        \<or> d ''signature'' = Some (RSAKey n1 e1 p1) \<and> n1 < 256 ^ 512
            \<and> (d ''encryption'' = None
                 \<or> d ''encryption'' = Some (RSAKey n2 e2 p2) \<and> n2 < 256 ^ 512
                     \<and> d ''exchange'' = None)
      \<longrightarrow> from_keys X CS1 (Some d) a = Inl RuntimeError)"
proof (rule conjI; rule impI)
  assume m: "d ''signature'' = None \<or> d ''encryption'' = None \<or> d ''exchange'' = None"
  then have i: "IdentityBase_init (Some d) g = Inl RuntimeError"
    by (rule IdentityBase_init_missing)
  from m have z: "from_keys X CS0 (Some d) a = Inl KeyError"
    by (auto simp: from_keys_def cs0_pack_keys_def except_KeyError_TypeError_def bind_err_def
        getitem_def split: option.splits)
  from i have f: "FirstPersonBase_init X c fresh (Some d) (Some g) Default = Inl RuntimeError"
    by (simp add: FirstPersonBase_init_def dispatch_address_def bind_err_def)
  from z i f
  show "from_keys X CS0 (Some d) a = Inl KeyError
        \<and> IdentityBase_init (Some d) g = Inl RuntimeError
        \<and> FirstPersonBase_init X c fresh (Some d) (Some g) Default = Inl RuntimeError"
    by simp
next
  assume "d ''signature'' = None
        \<or> d ''signature'' = Some (RSAKey n1 e1 p1) \<and> n1 < 256 ^ 512
            \<and> (d ''encryption'' = None
                 \<or> d ''encryption'' = Some (RSAKey n2 e2 p2) \<and> n2 < 256 ^ 512
                     \<and> d ''exchange'' = None)"
  then have "cs1_pack_keys (Some d) = Inl KeyError"
    by (auto simp: cs1_pack_keys_def bind_err_def getitem_def rsa_n_def to_bytes_be_def)
  then show "from_keys X CS1 (Some d) a = Inl RuntimeError"
    by (simp add: from_keys_def except_KeyError_TypeError_def bind_err_def)
qed

theorem from_keys_missing_role_witness:
  "from_keys toy CS0 (Some (Map.empty(''encryption'' \<mapsto> RawKey [3], ''exchange'' \<mapsto> RawKey [3]))) 1
     = Inl KeyError
   \<and> from_keys toy CS1 (Some (Map.empty(''encryption'' \<mapsto> RawKey [3], ''exchange'' \<mapsto> RawKey [3]))) 1
     = Inl RuntimeError"
proof -
  have "(Map.empty(''encryption'' \<mapsto> RawKey [3], ''exchange'' \<mapsto> RawKey [3])) ''signature'' = None
        \<or> (Map.empty(''encryption'' \<mapsto> RawKey [3], ''exchange'' \<mapsto> RawKey [3])) ''encryption'' = None
        \<or> (Map.empty(''encryption'' \<mapsto> RawKey [3], ''exchange'' \<mapsto> RawKey [3])) ''exchange'' = None"
    by simp
  with from_keys_missing_role
         [where d = "Map.empty(''encryption'' \<mapsto> RawKey [3], ''exchange'' \<mapsto> RawKey [3])"
            and X = toy and a = 1]
  show ?thesis
    by simp
qed

end
